theory Spec2Isabelle
  imports Complex_Main
begin

section \<open>Bayesian protein inference: the orchestration layer of OpenMS\<close>

text \<open>
  This theory embeds \<^verbatim>\<open>BayesianProteinInferenceAlgorithm.cpp\<close>: the three functors it
  applies to the connected components (CCs) of the identification graph, the grid-search
  evaluator and \<^verbatim>\<open>inferPosteriorProbabilities\<close>.

  Conventions of the embedding.
  \<^item> A C++ \<^verbatim>\<open>double\<close> is a \<^typ>\<open>real\<close>. The file computes with doubles in two places only:
    the comparisons that build the grid axes and the single subtraction
    \<^verbatim>\<open>1. - pmf.table()[0ul]\<close>; every other double is passed on unchanged.
  \<^item> An exception is a value: a block that may throw returns a sum whose left
    injection is the thrown exception.
  \<^item> What a call does to the outside world (logging, the builder's \<^verbatim>\<open>to_graph()\<close>,
    the construction of a scheduler) is recorded, in order, in a list of events.
\<close>

subsection \<open>Parameters\<close>

text \<open>
  \<^verbatim>\<open>scheduling_type\<close> is restricted by \<^verbatim>\<open>setValidStrings\<close> to the three strings
  \<^verbatim>\<open>priority\<close>, \<^verbatim>\<open>fifo\<close> and \<^verbatim>\<open>random_spanning_tree\<close>.
\<close>

datatype scheduling = priority | fifo | random_spanning_tree

text \<open>
  The \<^verbatim>\<open>Param\<close> object \<^verbatim>\<open>param_\<close> (written \<open>params\<close>), one field per key that the
  constructor declares. The flags whose valid strings are \<^verbatim>\<open>"true"\<close> and \<^verbatim>\<open>"false"\<close> are read with \<^verbatim>\<open>toBool()\<close>
  wherever the file reads them, and are booleans here.
\<close>

record param =
  top_PSMs :: int
  update_PSM_probabilities :: bool
  user_defined_priors :: bool
  annotate_group_probabilities :: bool
  prot_prior :: real
  pep_emission :: real
  pep_spurious_emission :: real
  pep_prior :: real
  scheduling_type :: scheduling
  convergence_threshold :: real
  dampening_lambda :: real
  max_nr_iterations :: nat
  p_norm_inference :: real
  aucweight :: real

text \<open>The values that the constructor of \<^verbatim>\<open>BayesianProteinInferenceAlgorithm\<close> sets.\<close>

definition defaults :: param where
  "defaults =
     \<lparr>top_PSMs = 1, update_PSM_probabilities = True, user_defined_priors = False,
      annotate_group_probabilities = True, prot_prior = - 1, pep_emission = - 1,
      pep_spurious_emission = - 1, pep_prior = 0.5, scheduling_type = priority,
      convergence_threshold = 1 / 100000, dampening_lambda = 1 / 1000,
      max_nr_iterations = 2 ^ 31, p_norm_inference = 1, aucweight = 0.2\<rparr>"

subsection \<open>The axes of the grid\<close>

text \<open>
  \<^verbatim>\<open>inferPosteriorProbabilities\<close>, the vectors \<^verbatim>\<open>gamma_search\<close>, \<^verbatim>\<open>beta_search\<close> and
  \<^verbatim>\<open>alpha_search\<close> as the \<^verbatim>\<open>oldway\<close> branch fills them from the configured values.
\<close>

definition gamma_search :: "param \<Rightarrow> real list" where
  "gamma_search params =
     (let gamma = prot_prior params
      in if gamma > 1.0 \<or> gamma < 0.0 then [0.5] else [gamma])"

definition beta_search :: "param \<Rightarrow> real list" where
  "beta_search params =
     (let beta = pep_spurious_emission params
      in if beta > 1.0 \<or> beta < 0.0 then [0.001] else [beta])"

definition alpha_search :: "param \<Rightarrow> real list" where
  "alpha_search params =
     (let alpha = pep_emission params
      in if alpha > 1.0 \<or> alpha < 0.0 then [0.1, 0.3, 0.5, 0.7, 0.9] else [alpha])"

subsection \<open>The identification graph\<close>

text \<open>
  A vertex of \<^verbatim>\<open>IDBoostGraph::Graph\<close> carries a \<^verbatim>\<open>boost::variant\<close>; the functors
  dispatch on its discriminant \<^verbatim>\<open>which()\<close>: 0 is a \<^verbatim>\<open>ProteinHit*\<close>, 1 a
  \<^verbatim>\<open>ProteinGroup\<close>, 2 a peptide group, 6 a \<^verbatim>\<open>PeptideHit*\<close> (a PSM). The alternatives at the
  indices 3, 4 and 5 are named by no code of this file, which never does anything for
  them. A hit is owned by the caller and reached through the pointer; the embedding
  keeps the fields that the file reads or writes (accession, score, the meta value
  \<^verbatim>\<open>"Prior"\<close>, the number of peptide evidences) inside the vertex that points to the hit.
\<close>

record ProteinHit =
  prot_accession :: string
  prot_score :: real
  prot_meta_Prior :: "real option"

record PeptideHit =
  pep_score :: real
  pep_nr_evidences :: nat

datatype IDPointer =
    Protein ProteinHit
  | ProteinGroup real
  | PeptideGroup real
  | Alternative3
  | Alternative4
  | Alternative5
  | PSM PeptideHit

fun which :: "IDPointer \<Rightarrow> nat" where
  "which (Protein _) = 0"
| "which (ProteinGroup _) = 1"
| "which (PeptideGroup _) = 2"
| "which Alternative3 = 3"
| "which Alternative4 = 4"
| "which Alternative5 = 5"
| "which (PSM _) = 6"

type_synonym vertex_t = nat

text \<open>
  The graph of one connected component. \<^verbatim>\<open>boost::vertices(fg)\<close> runs over the descriptors
  \<open>0 ..< num_vertices\<close>; \<open>vertex_property fg v\<close> is \<^verbatim>\<open>fg[v]\<close>; \<open>adjacent_vertices fg v\<close> lists the
  neighbours of \<open>v\<close> in the order in which \<^verbatim>\<open>boost::adjacent_vertices\<close> yields them.
\<close>

record Graph =
  num_vertices :: nat
  vertex_property :: "vertex_t \<Rightarrow> IDPointer"
  adjacent_vertices :: "vertex_t \<Rightarrow> vertex_t list"

definition vertices :: "Graph \<Rightarrow> vertex_t list" where
  "vertices fg = [0 ..< num_vertices fg]"

text \<open>
  Modelled from the spec: \<^verbatim>\<open>IDBoostGraph::SetPosteriorVisitor\<close>, declared in a header
  that is not part of the sources at hand. The spec has it write the posterior into the
  vertex's underlying data, one arm per variant alternative: the score of a hit, the
  value of a group. The alternatives 3 to 5 hold no probability and stay as they are.
\<close>

fun SetPosteriorVisitor :: "IDPointer \<Rightarrow> real \<Rightarrow> IDPointer" where
  "SetPosteriorVisitor (Protein prot) posterior = Protein (prot\<lparr>prot_score := posterior\<rparr>)"
| "SetPosteriorVisitor (ProteinGroup _) posterior = ProteinGroup posterior"
| "SetPosteriorVisitor (PeptideGroup _) posterior = PeptideGroup posterior"
| "SetPosteriorVisitor (PSM pep) posterior = PSM (pep\<lparr>pep_score := posterior\<rparr>)"
| "SetPosteriorVisitor other posterior = other"

text \<open>The probability that a vertex holds, for the alternatives that hold one.\<close>

fun stored_probability :: "IDPointer \<Rightarrow> real option" where
  "stored_probability (Protein prot) = Some (prot_score prot)"
| "stored_probability (ProteinGroup v) = Some v"
| "stored_probability (PeptideGroup v) = Some v"
| "stored_probability (PSM pep) = Some (pep_score pep)"
| "stored_probability other = None"

subsection \<open>The inference library as a collaborator\<close>

text \<open>
  The factor-graph library (message-passer factory, Bethe graph builder, scheduler,
  belief-propagation engine, PMF) is called by this file and defined elsewhere. The
  embedding records what the file hands to it and takes what it answers as a parameter.
\<close>

text \<open>
  \<^verbatim>\<open>catch (const std::runtime_error&)\<close> tells two kinds of exception apart: those whose
  class is \<^verbatim>\<open>std::runtime_error\<close> or derives from it, and all others. The string is \<^verbatim>\<open>what()\<close>.
\<close>

datatype cpp_exception = Runtime_error string | Other_exception string

text \<open>
  A one-dimensional PMF: \<^verbatim>\<open>first_support()[0]\<close> and the flat \<^verbatim>\<open>table()\<close>, which holds
  one entry per point of the support, so that the last point of the support is
  \<open>first_support + length table - 1\<close>.
\<close>

record PMF =
  first_support :: int
  table :: "real list"

definition last_support :: "PMF \<Rightarrow> int" where
  "last_support pmf = first_support pmf + int (length (table pmf)) - 1"

text \<open>A posterior factor as \<^verbatim>\<open>estimate_posteriors\<close> returns it.\<close>

record LabeledPMF =
  ordered_variables :: "vertex_t list"
  pmf :: PMF

text \<open>The p-norm of the marginalisation: a double or \<^verbatim>\<open>numeric_limits<double>::infinity()\<close>.\<close>

datatype p_norm = finite_p real | infinity_p

record MessagePasserFactory =
  mpf_alpha :: real
  mpf_beta :: real
  mpf_gamma :: real
  mpf_p :: p_norm
  mpf_pep_prior :: real

text \<open>
  The factors that the functors ask the factory for, with the arguments of each call.
  \<open>createProteinFactor_prior\<close> is the two-argument overload; its second argument is the
  hit's meta value \<^verbatim>\<open>"Prior"\<close> (\<open>None\<close> when the hit has none) before the cast to double.
\<close>

datatype factor =
    createSumEvidenceFactor nat vertex_t vertex_t
  | createPeptideEvidenceFactor vertex_t real
  | createPeptideProbabilisticAdderFactor "vertex_t list" vertex_t
  | createProteinFactor vertex_t
  | createProteinFactor_prior vertex_t "real option"

record Scheduler =
  strategy :: scheduling
  sched_dampening_lambda :: real
  sched_convergence_threshold :: real
  sched_max_nr_iterations :: nat

definition PriorityScheduler :: "real \<Rightarrow> real \<Rightarrow> nat \<Rightarrow> Scheduler" where
  "PriorityScheduler lambda threshold iterations =
     \<lparr>strategy = priority, sched_dampening_lambda = lambda,
      sched_convergence_threshold = threshold, sched_max_nr_iterations = iterations\<rparr>"

text \<open>
  What the library answers. \<open>insert_dependency_throws\<close>: the exception, if any, with
  which creating a factor and inserting it into the builder ends. \<open>belief_propagation\<close>:
  what seeding the scheduler and running the engine on the built graph end with, an
  exception or the marginal PMF of every requested variable list.

  Modelled from the spec: \<^verbatim>\<open>BetheInferenceGraphBuilder::to_graph()\<close>, which is not part of
  the sources at hand. The spec has it materialise the graph from what was inserted and
  release the builder's scratch, and names no way for it to fail; both functors call it
  in their handlers as the clean-up. It is an event of the run and does not throw.
\<close>

record evergreen =
  insert_dependency_throws :: "MessagePasserFactory \<Rightarrow> factor \<Rightarrow> cpp_exception option"
  belief_propagation ::
    "MessagePasserFactory \<Rightarrow> factor list \<Rightarrow> Scheduler \<Rightarrow> vertex_t list list
       \<Rightarrow> cpp_exception + (vertex_t list \<Rightarrow> PMF)"

text \<open>
  Modelled from the spec: \<^verbatim>\<open>BeliefPropagationInferenceEngine::estimate_posteriors\<close>, which
  is not part of the sources at hand. The spec has it return, for each requested
  variable, the single-variable marginal factor; the factors come in the order of the
  request.
\<close>

definition estimate_posteriors ::
  "evergreen \<Rightarrow> MessagePasserFactory \<Rightarrow> factor list \<Rightarrow> Scheduler \<Rightarrow> vertex_t list list
     \<Rightarrow> cpp_exception + LabeledPMF list" where
  "estimate_posteriors ev mpf ig scheduler posteriorVars =
     (case belief_propagation ev mpf ig scheduler posteriorVars of
        Inl e \<Rightarrow> Inl e
      | Inr marginal \<Rightarrow>
          Inr (map (\<lambda>vars. \<lparr>ordered_variables = vars, pmf = marginal vars\<rparr>) posteriorVars))"

subsection \<open>Effects and outcomes\<close>

text \<open>
  The events of a run, in the order in which they happen: a call of the builder's
  \<^verbatim>\<open>to_graph()\<close>, the construction of a scheduler, a line on \<^verbatim>\<open>LOG_WARN\<close>, a line on
  \<^verbatim>\<open>std::cout\<close> (three of them print numbers), and the construction of a
  \<^verbatim>\<open>GraphInferenceFunctor\<close> from the current parameters for a pass over all CCs.
\<close>

datatype event =
    to_graph
  | Scheduler_constructed Scheduler
  | LOG_WARN string
  | cout string
  | cout_Evaluating real real real
  | cout_Testing nat
  | cout_Best_params real real real
  | GraphInferenceFunctor_constructed param

text \<open>
  How a block ends other than by finishing: with an exception in flight, or in undefined
  behaviour (an unchecked \<^verbatim>\<open>operator[]\<close> of a \<^verbatim>\<open>std::vector\<close> past its end).
\<close>

datatype abort = Thrown cpp_exception | Undefined_behaviour

datatype outcome = Returned | Propagated cpp_exception | Undefined_behaviour_reached

subsection \<open>Building the dependencies of a connected component\<close>

text \<open>
  \<^verbatim>\<open>bigb.insert_dependency(mpf.create...(...))\<close>: the builder \<open>bigb\<close> is the list of the
  factors inserted so far.
\<close>

definition insert_dependency ::
  "evergreen \<Rightarrow> MessagePasserFactory \<Rightarrow> factor \<Rightarrow> factor list \<Rightarrow> abort + factor list" where
  "insert_dependency ev mpf f bigb =
     (case insert_dependency_throws ev mpf f of
        Some e \<Rightarrow> Inl (Thrown e)
      | None \<Rightarrow> Inr (bigb @ [f]))"

text \<open>The inner loop that fills the vector \<^verbatim>\<open>in\<close>: the neighbours of strictly lower \<^verbatim>\<open>which()\<close>.\<close>

definition gather_in :: "Graph \<Rightarrow> vertex_t \<Rightarrow> vertex_t list" where
  "gather_in fg ui =
     filter (\<lambda>nb. which (vertex_property fg nb) < which (vertex_property fg ui))
       (adjacent_vertices fg ui)"

text \<open>
  One round of the loop over the vertices in \<^verbatim>\<open>GraphInferenceFunctor::operator()\<close>. The
  state is the builder and \<^verbatim>\<open>posteriorVars\<close>. For a PSM the source evaluates \<^verbatim>\<open>in[0]\<close>
  with nothing before it that looks at the size of \<^verbatim>\<open>in\<close>.
\<close>

definition GraphInferenceFunctor_vertex ::
  "evergreen \<Rightarrow> MessagePasserFactory \<Rightarrow> param \<Rightarrow> Graph \<Rightarrow> vertex_t
     \<Rightarrow> factor list \<times> vertex_t list list \<Rightarrow> abort + factor list \<times> vertex_t list list" where
  "GraphInferenceFunctor_vertex ev mpf params fg ui st =
     (let inp = gather_in fg ui; bigb = fst st; posteriorVars = snd st
      in case vertex_property fg ui of
           PSM pep \<Rightarrow>
             (case inp of
                [] \<Rightarrow> Inl Undefined_behaviour
              | in0 # _ \<Rightarrow>
                  (case insert_dependency ev mpf
                          (createSumEvidenceFactor (pep_nr_evidences pep) in0 ui) bigb of
                     Inl a \<Rightarrow> Inl a
                   | Inr bigb1 \<Rightarrow>
                       (case insert_dependency ev mpf
                               (createPeptideEvidenceFactor ui (pep_score pep)) bigb1 of
                          Inl a \<Rightarrow> Inl a
                        | Inr bigb2 \<Rightarrow>
                            Inr (bigb2,
                                 if update_PSM_probabilities params
                                 then posteriorVars @ [[ui]] else posteriorVars))))
         | PeptideGroup _ \<Rightarrow>
             (case insert_dependency ev mpf (createPeptideProbabilisticAdderFactor inp ui) bigb of
                Inl a \<Rightarrow> Inl a
              | Inr bigb1 \<Rightarrow> Inr (bigb1, posteriorVars))
         | ProteinGroup _ \<Rightarrow>
             (case insert_dependency ev mpf (createPeptideProbabilisticAdderFactor inp ui) bigb of
                Inl a \<Rightarrow> Inl a
              | Inr bigb1 \<Rightarrow>
                  Inr (bigb1,
                       if annotate_group_probabilities params
                       then posteriorVars @ [[ui]] else posteriorVars))
         | Protein prot \<Rightarrow>
             (case insert_dependency ev mpf
                     (if user_defined_priors params
                      then createProteinFactor_prior ui (prot_meta_Prior prot)
                      else createProteinFactor ui) bigb of
                Inl a \<Rightarrow> Inl a
              | Inr bigb1 \<Rightarrow> Inr (bigb1, posteriorVars @ [[ui]]))
         | _ \<Rightarrow> Inr st)"

text \<open>The same round in \<^verbatim>\<open>ExtendedGraphInferenceFunctor::operator()\<close>.\<close>

definition ExtendedGraphInferenceFunctor_vertex ::
  "evergreen \<Rightarrow> MessagePasserFactory \<Rightarrow> Graph \<Rightarrow> vertex_t
     \<Rightarrow> factor list \<times> vertex_t list list \<Rightarrow> abort + factor list \<times> vertex_t list list" where
  "ExtendedGraphInferenceFunctor_vertex ev mpf fg ui st =
     (let inp = gather_in fg ui; bigb = fst st; posteriorVars = snd st
      in case vertex_property fg ui of
           PSM pep \<Rightarrow>
             (case inp of
                [] \<Rightarrow> Inl Undefined_behaviour
              | in0 # _ \<Rightarrow>
                  (case insert_dependency ev mpf
                          (createSumEvidenceFactor (pep_nr_evidences pep) in0 ui) bigb of
                     Inl a \<Rightarrow> Inl a
                   | Inr bigb1 \<Rightarrow>
                       (case insert_dependency ev mpf
                               (createPeptideEvidenceFactor ui (pep_score pep)) bigb1 of
                          Inl a \<Rightarrow> Inl a
                        | Inr bigb2 \<Rightarrow> Inr (bigb2, posteriorVars))))
         | PeptideGroup _ \<Rightarrow>
             (case insert_dependency ev mpf (createPeptideProbabilisticAdderFactor inp ui) bigb of
                Inl a \<Rightarrow> Inl a
              | Inr bigb1 \<Rightarrow> Inr (bigb1, posteriorVars))
         | ProteinGroup _ \<Rightarrow>
             (case insert_dependency ev mpf (createPeptideProbabilisticAdderFactor inp ui) bigb of
                Inl a \<Rightarrow> Inl a
              | Inr bigb1 \<Rightarrow> Inr (bigb1, posteriorVars))
         | Protein prot \<Rightarrow>
             (case insert_dependency ev mpf (createProteinFactor ui) bigb of
                Inl a \<Rightarrow> Inl a
              | Inr bigb1 \<Rightarrow> Inr (bigb1, posteriorVars @ [[ui]]))
         | _ \<Rightarrow> Inr st)"

text \<open>The loop \<^verbatim>\<open>for (; ui != ui_end; ++ui)\<close>: it ends at the first round that does not finish.\<close>

fun for_each_vertex :: "(vertex_t \<Rightarrow> 's \<Rightarrow> abort + 's) \<Rightarrow> vertex_t list \<Rightarrow> 's \<Rightarrow> abort + 's" where
  "for_each_vertex body [] st = Inr st"
| "for_each_vertex body (ui # rest) st =
     (case body ui st of
        Inl a \<Rightarrow> Inl a
      | Inr st' \<Rightarrow> for_each_vertex body rest st')"

subsection \<open>Writing the posteriors back\<close>

text \<open>
  The variable \<^verbatim>\<open>posterior\<close> of \<^verbatim>\<open>GraphInferenceFunctor\<close>: initialised to 1.0, replaced by
  \<^verbatim>\<open>1. - pmf.table()[0ul]\<close> when 0 lies in the support.
\<close>

definition GraphInferenceFunctor_posterior :: "PMF \<Rightarrow> real" where
  "GraphInferenceFunctor_posterior pm =
     (if 0 \<ge> first_support pm \<and> 0 \<le> last_support pm then 1 - table pm ! 0 else 1)"

text \<open>
  The variable \<^verbatim>\<open>posterior\<close> of \<^verbatim>\<open>ExtendedGraphInferenceFunctor\<close>: initialised to 0.0,
  replaced by \<^verbatim>\<open>pmf.table()[1 - pmf.first_support()[0]]\<close> when 1 lies in the support.
\<close>

definition ExtendedGraphInferenceFunctor_posterior :: "PMF \<Rightarrow> real" where
  "ExtendedGraphInferenceFunctor_posterior pm =
     (if 1 \<ge> first_support pm \<and> 1 \<le> last_support pm
      then table pm ! nat (1 - first_support pm) else 0)"

text \<open>
  The loop over \<^verbatim>\<open>posteriorFactors\<close>, the same in both functors but for the way
  \<^verbatim>\<open>posterior\<close> is computed. \<^verbatim>\<open>ordered_variables()[0]\<close> is the head of a list that
  \<open>estimate_posteriors\<close> copies from \<^verbatim>\<open>posteriorVars\<close>, whose entries are all of the form \<^verbatim>\<open>{*ui}\<close>.
\<close>

fun set_posteriors :: "(PMF \<Rightarrow> real) \<Rightarrow> LabeledPMF list \<Rightarrow> Graph \<Rightarrow> Graph" where
  "set_posteriors posterior_of [] fg = fg"
| "set_posteriors posterior_of (posteriorFactor # rest) fg =
     (let posterior = posterior_of (pmf posteriorFactor);
          nodeId = hd (ordered_variables posteriorFactor)
      in set_posteriors posterior_of rest
           (fg\<lparr>vertex_property :=
                 (vertex_property fg)
                   (nodeId := SetPosteriorVisitor (vertex_property fg nodeId) posterior)\<rparr>))"

subsection \<open>The inference functors\<close>

definition pnorm_of :: "param \<Rightarrow> p_norm" where
  "pnorm_of params =
     (let pnorm = p_norm_inference params
      in if pnorm \<le> 0 then infinity_p else finite_p pnorm)"

definition make_MessagePasserFactory :: "param \<Rightarrow> MessagePasserFactory" where
  "make_MessagePasserFactory params =
     \<lparr>mpf_alpha = pep_emission params, mpf_beta = pep_spurious_emission params,
      mpf_gamma = prot_prior params, mpf_p = pnorm_of params,
      mpf_pep_prior = pep_prior params\<rparr>"

text \<open>
  The \<^verbatim>\<open>try\<close> block of \<^verbatim>\<open>GraphInferenceFunctor::operator()\<close>. It yields how the block ends
  (the graph with the posteriors written, or what stopped it), the flag
  \<^verbatim>\<open>graph_mp_ownership_acquired\<close> at that point, and the events so far.
\<close>

definition GraphInferenceFunctor_try ::
  "evergreen \<Rightarrow> param \<Rightarrow> Graph \<Rightarrow> (abort + Graph) \<times> bool \<times> event list" where
  "GraphInferenceFunctor_try ev params fg =
     (let mpf = make_MessagePasserFactory params
      in case for_each_vertex (GraphInferenceFunctor_vertex ev mpf params fg)
                (vertices fg) ([], []) of
           Inl a \<Rightarrow> (Inl a, False, [])
         | Inr (bigb, posteriorVars) \<Rightarrow>
             (let scheduler = PriorityScheduler (dampening_lambda params)
                                (convergence_threshold params) (max_nr_iterations params);
                  events = [to_graph, Scheduler_constructed scheduler]
              in case estimate_posteriors ev mpf bigb scheduler posteriorVars of
                   Inl e \<Rightarrow> (Inl (Thrown e), True, events)
                 | Inr posteriorFactors \<Rightarrow>
                     (Inr (set_posteriors GraphInferenceFunctor_posterior posteriorFactors fg),
                      True, events)))"

text \<open>
  \<^verbatim>\<open>GraphInferenceFunctor::operator()\<close>: the outcome, the graph afterwards and the events.
  The handler catches \<^verbatim>\<open>std::runtime_error\<close>, calls \<^verbatim>\<open>to_graph()\<close> unless the flag is set,
  and warns.
\<close>

definition GraphInferenceFunctor ::
  "evergreen \<Rightarrow> param \<Rightarrow> Graph \<Rightarrow> outcome \<times> Graph \<times> event list" where
  "GraphInferenceFunctor ev params fg =
     (if num_vertices fg \<ge> 2 then
        (case GraphInferenceFunctor_try ev params fg of
           (Inr fg', graph_mp_ownership_acquired, events) \<Rightarrow> (Returned, fg', events)
         | (Inl (Thrown (Runtime_error w)), graph_mp_ownership_acquired, events) \<Rightarrow>
             (Returned, fg,
              events @ (if \<not> graph_mp_ownership_acquired then [to_graph] else []) @
              [LOG_WARN (''Warning: Loopy belief propagation encountered a problem in a '' @
                         ''connected component. Skipping inference there.'')])
         | (Inl (Thrown (Other_exception w)), graph_mp_ownership_acquired, events) \<Rightarrow>
             (Propagated (Other_exception w), fg, events)
         | (Inl Undefined_behaviour, graph_mp_ownership_acquired, events) \<Rightarrow>
             (Undefined_behaviour_reached, fg, events))
      else (Returned, fg, [cout ''Skipped cc with only one type (proteins or peptides)'']))"

text \<open>The \<^verbatim>\<open>try\<close> block of \<^verbatim>\<open>ExtendedGraphInferenceFunctor::operator()\<close>, which keeps no flag.\<close>

definition ExtendedGraphInferenceFunctor_try ::
  "evergreen \<Rightarrow> param \<Rightarrow> Graph \<Rightarrow> (abort + Graph) \<times> event list" where
  "ExtendedGraphInferenceFunctor_try ev params fg =
     (let mpf = make_MessagePasserFactory params
      in case for_each_vertex (ExtendedGraphInferenceFunctor_vertex ev mpf fg)
                (vertices fg) ([], []) of
           Inl a \<Rightarrow> (Inl a, [])
         | Inr (bigb, posteriorVars) \<Rightarrow>
             (let scheduler = PriorityScheduler (dampening_lambda params)
                                (convergence_threshold params) (max_nr_iterations params);
                  events = [to_graph, Scheduler_constructed scheduler]
              in case estimate_posteriors ev mpf bigb scheduler posteriorVars of
                   Inl e \<Rightarrow> (Inl (Thrown e), events)
                 | Inr posteriorFactors \<Rightarrow>
                     (Inr (set_posteriors ExtendedGraphInferenceFunctor_posterior
                             posteriorFactors fg),
                      events)))"

text \<open>
  \<^verbatim>\<open>ExtendedGraphInferenceFunctor::operator()\<close>. Its handler calls \<^verbatim>\<open>to_graph()\<close> whatever
  the point at which the exception was thrown; the two string literals of its warning
  are adjacent, with no blank between them.
\<close>

definition ExtendedGraphInferenceFunctor ::
  "evergreen \<Rightarrow> param \<Rightarrow> Graph \<Rightarrow> outcome \<times> Graph \<times> event list" where
  "ExtendedGraphInferenceFunctor ev params fg =
     (if num_vertices fg \<ge> 2 then
        (case ExtendedGraphInferenceFunctor_try ev params fg of
           (Inr fg', events) \<Rightarrow> (Returned, fg', events)
         | (Inl (Thrown (Runtime_error w)), events) \<Rightarrow>
             (Returned, fg,
              events @ [to_graph] @
              [LOG_WARN (''Warning: Loopy belief propagation encountered a problem in a '' @
                         ''connected component. Skipping'' @ ''inference there.'')])
         | (Inl (Thrown (Other_exception w)), events) \<Rightarrow>
             (Propagated (Other_exception w), fg, events)
         | (Inl Undefined_behaviour, events) \<Rightarrow> (Undefined_behaviour_reached, fg, events))
      else (Returned, fg, [cout ''Skipped cc with only one type (proteins or peptides)'']))"

subsection \<open>Applying a functor to every connected component\<close>

text \<open>
  Modelled from the spec: \<^verbatim>\<open>IDBoostGraph::applyFunctorOnCCs\<close>, whose definition is not
  part of the sources at hand. The spec has it invoke the functor on the subgraph of
  every CC with at least two vertices. The CCs are visited in their order; an exception
  that leaves the functor leaves the driver, and the CCs after it are not visited.
\<close>

fun applyFunctorOnCCs ::
  "(Graph \<Rightarrow> outcome \<times> Graph \<times> event list) \<Rightarrow> Graph list \<Rightarrow> outcome \<times> Graph list \<times> event list" where
  "applyFunctorOnCCs functor [] = (Returned, [], [])"
| "applyFunctorOnCCs functor (cc # ccs) =
     (if num_vertices cc \<ge> 2 then
        (case functor cc of
           (out, cc', events) \<Rightarrow>
             if out = Returned then
               (case applyFunctorOnCCs functor ccs of
                  (out', ccs', events') \<Rightarrow> (out', cc' # ccs', events @ events'))
             else (out, cc' # ccs, events))
      else
        (case applyFunctorOnCCs functor ccs of
           (out', ccs', events') \<Rightarrow> (out', cc # ccs', events')))"

subsection \<open>Annotating the indistinguishable groups\<close>

text \<open>\<^verbatim>\<open>ProteinIdentification::ProteinGroup\<close>, the two members that the functor fills.\<close>

record ProteinIdentification_ProteinGroup =
  probability :: real
  accessions :: "string list"

text \<open>
  The loop over the neighbours of a group vertex in
  \<^verbatim>\<open>AnnotateIndistGroupsFunctor::operator()\<close>, which pushes the accession of every
  neighbour with \<^verbatim>\<open>which() == 0\<close>.
\<close>

fun push_accessions :: "Graph \<Rightarrow> vertex_t list \<Rightarrow> string list \<Rightarrow> string list" where
  "push_accessions fg [] accs = accs"
| "push_accessions fg (nb # rest) accs =
     (case vertex_property fg nb of
        Protein prot \<Rightarrow> push_accessions fg rest (accs @ [prot_accession prot])
      | _ \<Rightarrow> push_accessions fg rest accs)"

text \<open>The loop over the vertices: one record is pushed for every vertex with \<^verbatim>\<open>which() == 1\<close>.\<close>

fun annotate_vertices ::
  "Graph \<Rightarrow> vertex_t list \<Rightarrow> ProteinIdentification_ProteinGroup list
     \<Rightarrow> ProteinIdentification_ProteinGroup list" where
  "annotate_vertices fg [] prots = prots"
| "annotate_vertices fg (ui # rest) prots =
     (case vertex_property fg ui of
        ProteinGroup value \<Rightarrow>
          annotate_vertices fg rest
            (prots @ [\<lparr>probability = value,
                       accessions = push_accessions fg (adjacent_vertices fg ui) []\<rparr>])
      | _ \<Rightarrow> annotate_vertices fg rest prots)"

text \<open>
  \<^verbatim>\<open>AnnotateIndistGroupsFunctor::operator()\<close>. The state \<open>prots\<close> is the list
  \<^verbatim>\<open>prots.getIndistinguishableProteins()\<close>; the graph is read only.
\<close>

definition AnnotateIndistGroupsFunctor ::
  "Graph \<Rightarrow> ProteinIdentification_ProteinGroup list \<Rightarrow> ProteinIdentification_ProteinGroup list" where
  "AnnotateIndistGroupsFunctor fg prots =
     (if num_vertices fg \<ge> 2 then annotate_vertices fg (vertices fg) prots else prots)"

text \<open>
  Modelled from the spec: \<^verbatim>\<open>IDBoostGraph::applyFunctorOnCCsST\<close>, the single-threaded
  variant of the driver, whose definition is not part of the sources at hand: one
  thread visits the CCs with at least two vertices in their order.
\<close>

fun applyFunctorOnCCsST :: "(Graph \<Rightarrow> 's \<Rightarrow> 's) \<Rightarrow> Graph list \<Rightarrow> 's \<Rightarrow> 's" where
  "applyFunctorOnCCsST functor [] st = st"
| "applyFunctorOnCCsST functor (cc # ccs) st =
     applyFunctorOnCCsST functor ccs (if num_vertices cc \<ge> 2 then functor cc st else st)"

subsection \<open>Grid search\<close>

text \<open>
  Modelled from the spec: the class \<^verbatim>\<open>GridSearch<double,double,double>\<close>, whose
  definition is not part of the sources at hand. It holds the three axes;
  \<^verbatim>\<open>getNrCombos()\<close> is the number of tuples of the grid; \<^verbatim>\<open>evaluate\<close> calls the evaluator on
  each tuple and tracks the indices of the tuple with the greatest value, starting from
  the start value and the indices it is given. The evaluator is the object of this file;
  it works on the state \<open>'s\<close> it holds references to, and an exception that leaves it
  ends the search.
\<close>

record GridSearch =
  grid_alpha :: "real list"
  grid_beta :: "real list"
  grid_gamma :: "real list"

definition getNrCombos :: "GridSearch \<Rightarrow> nat" where
  "getNrCombos gs = length (grid_alpha gs) * length (grid_beta gs) * length (grid_gamma gs)"

definition combos :: "GridSearch \<Rightarrow> (nat \<times> nat \<times> nat) list" where
  "combos gs =
     concat (map (\<lambda>i. concat (map (\<lambda>j. map (\<lambda>k. (i, j, k)) [0 ..< length (grid_gamma gs)])
                                  [0 ..< length (grid_beta gs)]))
                 [0 ..< length (grid_alpha gs)])"

fun evaluate_combos ::
  "(real \<Rightarrow> real \<Rightarrow> real \<Rightarrow> 's \<Rightarrow> outcome \<times> real \<times> 's \<times> event list) \<Rightarrow> GridSearch
     \<Rightarrow> (nat \<times> nat \<times> nat) list \<Rightarrow> real \<Rightarrow> nat \<times> nat \<times> nat \<Rightarrow> 's
     \<Rightarrow> outcome \<times> (nat \<times> nat \<times> nat) \<times> 's \<times> event list" where
  "evaluate_combos evaluator gs [] bestValue bestParams st = (Returned, bestParams, st, [])"
| "evaluate_combos evaluator gs (c # rest) bestValue bestParams st =
     (case c of (i, j, k) \<Rightarrow>
        (case evaluator (grid_alpha gs ! i) (grid_beta gs ! j) (grid_gamma gs ! k) st of
           (out, val, st', events) \<Rightarrow>
             if out = Returned then
               (case evaluate_combos evaluator gs rest
                       (if val > bestValue then val else bestValue)
                       (if val > bestValue then c else bestParams) st' of
                  (out', bestParams', st'', events') \<Rightarrow>
                    (out', bestParams', st'', events @ events'))
             else (out, bestParams, st', events)))"

definition GridSearch_evaluate ::
  "GridSearch \<Rightarrow> (real \<Rightarrow> real \<Rightarrow> real \<Rightarrow> 's \<Rightarrow> outcome \<times> real \<times> 's \<times> event list)
     \<Rightarrow> real \<Rightarrow> nat \<times> nat \<times> nat \<Rightarrow> 's \<Rightarrow> outcome \<times> (nat \<times> nat \<times> nat) \<times> 's \<times> event list" where
  "GridSearch_evaluate gs evaluator startValue bestParams st =
     evaluate_combos evaluator gs (combos gs) startValue bestParams st"

text \<open>
  \<^verbatim>\<open>GridSearchEvaluator::operator()\<close>. It holds references to \<^verbatim>\<open>param_\<close> and to the graph,
  the state here. \<open>applyEvaluateProteinIDs\<close> is the score that the false-discovery-rate
  class computes from the protein hits, a parameter of the embedding.
\<close>

definition GridSearchEvaluator ::
  "evergreen \<Rightarrow> (Graph list \<Rightarrow> real) \<Rightarrow> real \<Rightarrow> real \<Rightarrow> real \<Rightarrow> param \<times> Graph list
     \<Rightarrow> outcome \<times> real \<times> (param \<times> Graph list) \<times> event list" where
  "GridSearchEvaluator ev applyEvaluateProteinIDs alpha beta gamma st =
     (let params1 = (fst st)\<lparr>prot_prior := gamma, pep_emission := alpha,
                              pep_spurious_emission := beta\<rparr>
      in case applyFunctorOnCCs (GraphInferenceFunctor ev params1) (snd st) of
           (out, ccs', events) \<Rightarrow>
             (out, applyEvaluateProteinIDs ccs', (params1, ccs'),
              [cout_Evaluating alpha beta gamma, GraphInferenceFunctor_constructed params1]
              @ events))"

subsection \<open>The orchestration\<close>

text \<open>
  \<^verbatim>\<open>inferPosteriorProbabilities\<close>, the \<^verbatim>\<open>oldway\<close> branch (the flag is the constant
  \<^verbatim>\<open>true\<close>) from the point where the graph is built and split into the CCs \<open>ccs\<close>.
  First the part up to the end of the search: the axes, the two flags saved and
  switched off, the search itself when the grid has more than one tuple.
\<close>

definition grid_search_stage ::
  "evergreen \<Rightarrow> (Graph list \<Rightarrow> real) \<Rightarrow> param \<Rightarrow> Graph list
     \<Rightarrow> outcome \<times> (nat \<times> nat \<times> nat) \<times> (param \<times> Graph list) \<times> event list" where
  "grid_search_stage ev applyEvaluateProteinIDs params ccs =
     (let gs = \<lparr>grid_alpha = alpha_search params, grid_beta = beta_search params,
                grid_gamma = gamma_search params\<rparr>;
          bestParams = (0, 0, 0);
          params1 = params\<lparr>update_PSM_probabilities := False\<rparr>;
          params2 = params1\<lparr>annotate_group_probabilities := False\<rparr>
      in if getNrCombos gs > 1 then
           (case GridSearch_evaluate gs (GridSearchEvaluator ev applyEvaluateProteinIDs)
                   (- 1) bestParams (params2, ccs) of
              (out, bestParams', st, events) \<Rightarrow>
                (out, bestParams', st, cout_Testing (getNrCombos gs) # events))
         else
           (Returned, bestParams, (params2, ccs),
            [cout ''Only one combination specified: Skipping grid search.'']))"

text \<open>
  The whole: after the search, the best parameters are set, the two flags are reset to
  the saved values, the inference functor runs over all CCs, and the groups are
  annotated. The result is the outcome, \<^verbatim>\<open>param_\<close>, the CCs, the list of
  indistinguishable groups of \<^verbatim>\<open>proteinIDs[0]\<close>, and the events.
\<close>

definition inferPosteriorProbabilities ::
  "evergreen \<Rightarrow> (Graph list \<Rightarrow> real) \<Rightarrow> param \<Rightarrow> Graph list
     \<Rightarrow> ProteinIdentification_ProteinGroup list
     \<Rightarrow> outcome \<times> param \<times> Graph list \<times> ProteinIdentification_ProteinGroup list \<times> event list" where
  "inferPosteriorProbabilities ev applyEvaluateProteinIDs params ccs groups =
     (let update_PSM = update_PSM_probabilities params;
          annotate_group_posteriors = annotate_group_probabilities params
      in case grid_search_stage ev applyEvaluateProteinIDs params ccs of
           (out, bestParams, st, events1) \<Rightarrow>
             if out \<noteq> Returned then (out, fst st, snd st, groups, events1)
             else
               (let bestGamma = gamma_search params ! (snd (snd bestParams));
                    bestBeta = beta_search params ! (fst (snd bestParams));
                    bestAlpha = alpha_search params ! (fst bestParams);
                    params3 = (fst st)\<lparr>prot_prior := bestGamma, pep_emission := bestAlpha,
                                        pep_spurious_emission := bestBeta,
                                        update_PSM_probabilities := update_PSM,
                                        annotate_group_probabilities := annotate_group_posteriors\<rparr>;
                    events2 = events1 @
                      [cout_Best_params bestAlpha bestBeta bestGamma,
                       cout ''Running with best parameters:'',
                       GraphInferenceFunctor_constructed params3]
                in case applyFunctorOnCCs (GraphInferenceFunctor ev params3) (snd st) of
                     (out', ccs', events3) \<Rightarrow>
                       if out' \<noteq> Returned then (out', params3, ccs', groups, events2 @ events3)
                       else (Returned, params3, ccs',
                             applyFunctorOnCCsST AnnotateIndistGroupsFunctor ccs' groups,
                             events2 @ events3)))"

subsection \<open>Which posteriors a functor requests\<close>

text \<open>
  The vertices for which a round of the loop pushes \<^verbatim>\<open>{*ui}\<close> onto \<^verbatim>\<open>posteriorVars\<close>, read
  off the branches of the two functors.
\<close>

definition GraphInferenceFunctor_requests :: "param \<Rightarrow> Graph \<Rightarrow> vertex_t \<Rightarrow> bool" where
  "GraphInferenceFunctor_requests params fg ui =
     (case vertex_property fg ui of
        PSM _ \<Rightarrow> update_PSM_probabilities params
      | ProteinGroup _ \<Rightarrow> annotate_group_probabilities params
      | Protein _ \<Rightarrow> True
      | _ \<Rightarrow> False)"

definition ExtendedGraphInferenceFunctor_requests :: "Graph \<Rightarrow> vertex_t \<Rightarrow> bool" where
  "ExtendedGraphInferenceFunctor_requests fg ui = (which (vertex_property fg ui) = 0)"

text \<open>
  The extraction of \<open>P(x=1)\<close> in the words of the specification, for comparison with the
  two functors: \<open>1 - table[0 - first_support]\<close> when 0 lies in the support, else
  \<open>table[1 - first_support]\<close> when 1 lies in the support, else 0.
\<close>

definition specified_posterior :: "PMF \<Rightarrow> real" where
  "specified_posterior pm =
     (if first_support pm \<le> 0 \<and> 0 \<le> last_support pm
      then 1 - table pm ! nat (0 - first_support pm)
      else if first_support pm \<le> 1 \<and> 1 \<le> last_support pm
      then table pm ! nat (1 - first_support pm)
      else 0)"

subsection \<open>The group records that the specification describes\<close>

text \<open>
  For a protein-group vertex: the record whose probability is the value stored in the
  vertex and whose accessions are those of the adjacent protein vertices, in the order
  of the adjacency; for a CC with at least two vertices, one such record per
  protein-group vertex, in the order of the vertices.
\<close>

definition protein_accessions :: "Graph \<Rightarrow> vertex_t list \<Rightarrow> string list" where
  "protein_accessions fg nbs =
     map (\<lambda>nb. case vertex_property fg nb of Protein prot \<Rightarrow> prot_accession prot | _ \<Rightarrow> [])
       (filter (\<lambda>nb. which (vertex_property fg nb) = 0) nbs)"

definition group_record :: "Graph \<Rightarrow> vertex_t \<Rightarrow> ProteinIdentification_ProteinGroup" where
  "group_record fg ui =
     \<lparr>probability = (case vertex_property fg ui of ProteinGroup value \<Rightarrow> value | _ \<Rightarrow> 0),
      accessions = protein_accessions fg (adjacent_vertices fg ui)\<rparr>"

definition group_records :: "Graph \<Rightarrow> ProteinIdentification_ProteinGroup list" where
  "group_records fg =
     (if num_vertices fg \<ge> 2
      then map (group_record fg) (filter (\<lambda>ui. which (vertex_property fg ui) = 1) (vertices fg))
      else [])"

subsection \<open>A concrete connected component\<close>

text \<open>
  Two proteins \<open>A\<close> and \<open>B\<close> (vertices 0 and 1) in one protein group (vertex 2), which
  has one PSM (vertex 3). The library inserts every factor and answers with a marginal
  for the group whose support is \<open>{1, 2}\<close>: at least one of the two proteins is present.
\<close>

definition example_cc :: Graph where
  "example_cc =
     \<lparr>num_vertices = 4,
      vertex_property = (\<lambda>v.
         if v = 0 then Protein \<lparr>prot_accession = ''A'', prot_score = 0.3, prot_meta_Prior = None\<rparr>
         else if v = 1 then Protein \<lparr>prot_accession = ''B'', prot_score = 0.4, prot_meta_Prior = None\<rparr>
         else if v = 2 then ProteinGroup 0
         else PSM \<lparr>pep_score = 0.9, pep_nr_evidences = 2\<rparr>),
      adjacent_vertices = (\<lambda>v.
         if v = 0 then [2] else if v = 1 then [2] else if v = 2 then [0, 1, 3]
         else if v = 3 then [2] else [])\<rparr>"

definition example_marginal :: "vertex_t list \<Rightarrow> PMF" where
  "example_marginal vars =
     (if vars = [2] then \<lparr>first_support = 1, table = [1/4, 3/4]\<rparr>
      else \<lparr>first_support = 0, table = [1/5, 4/5]\<rparr>)"

definition example_evergreen :: evergreen where
  "example_evergreen =
     \<lparr>insert_dependency_throws = (\<lambda>mpf f. None),
      belief_propagation = (\<lambda>mpf ig scheduler posteriorVars. Inr example_marginal)\<rparr>"

text \<open>
  A score for the grid search, parameters that fix all three axes, and the component
  after an inference pass that writes all four posteriors.
\<close>

definition example_score :: "Graph list \<Rightarrow> real" where
  "example_score ccs = 0"

definition example_params :: param where
  "example_params =
     defaults\<lparr>pep_emission := 0.8, pep_spurious_emission := 0.01, prot_prior := 0.5\<rparr>"

definition example_cc_inferred :: Graph where
  "example_cc_inferred =
     example_cc\<lparr>vertex_property :=
       (vertex_property example_cc)
         (0 := Protein \<lparr>prot_accession = ''A'', prot_score = 4 / 5, prot_meta_Prior = None\<rparr>,
          1 := Protein \<lparr>prot_accession = ''B'', prot_score = 4 / 5, prot_meta_Prior = None\<rparr>,
          2 := ProteinGroup 1,
          3 := PSM \<lparr>pep_score = 4 / 5, pep_nr_evidences = 2\<rparr>)\<rparr>"

subsection \<open>Failing collaborators, a malformed component, the two warnings\<close>

text \<open>
  A library whose belief propagation ends with the exception \<open>e\<close>, and one in which
  every insertion of a factor does.
\<close>

definition failing_inference :: "cpp_exception \<Rightarrow> evergreen" where
  "failing_inference e =
     \<lparr>insert_dependency_throws = (\<lambda>mpf f. None),
      belief_propagation = (\<lambda>mpf ig scheduler posteriorVars. Inl e)\<rparr>"

definition failing_insertion :: "cpp_exception \<Rightarrow> evergreen" where
  "failing_insertion e =
     \<lparr>insert_dependency_throws = (\<lambda>mpf f. Some e),
      belief_propagation = (\<lambda>mpf ig scheduler posteriorVars. Inr example_marginal)\<rparr>"

text \<open>
  The shape of a connected component on which the functors rely, as their comments state
  it (\<^verbatim>\<open>We only add edges between different types. and if there were no edges, it would
  not be a CC.\<close>): every vertex has a neighbour, and an edge joins vertices of different
  \<^verbatim>\<open>which()\<close> only.
\<close>

definition well_formed_cc :: "Graph \<Rightarrow> bool" where
  "well_formed_cc fg =
     list_all
       (\<lambda>v. adjacent_vertices fg v \<noteq> [] \<and>
            list_all (\<lambda>nb. which (vertex_property fg nb) \<noteq> which (vertex_property fg v))
              (adjacent_vertices fg v))
       (vertices fg)"

text \<open>
  A graph of two PSM vertices joined by an edge, which is not of that shape: neither
  vertex has a neighbour of lower \<^verbatim>\<open>which()\<close>.
\<close>

definition psm_pair_cc :: Graph where
  "psm_pair_cc =
     \<lparr>num_vertices = 2,
      vertex_property = (\<lambda>v. PSM \<lparr>pep_score = 0.9, pep_nr_evidences = 1\<rparr>),
      adjacent_vertices = (\<lambda>v. if v = 0 then [1] else if v = 1 then [0] else [])\<rparr>"

text \<open>
  The warning in the words of the specification, and the text that
  \<^verbatim>\<open>GraphInferenceFunctor\<close> passes to \<^verbatim>\<open>LOG_WARN\<close>.
\<close>

definition specified_warning :: string where
  "specified_warning =
     ''LBP encountered a problem in a connected component; skipping inference there.''"

definition emitted_warning :: string where
  "emitted_warning =
     ''Warning: Loopy belief propagation encountered a problem in a connected component. '' @
     ''Skipping inference there.''"

subsection \<open>What a search pass may write\<close>

text \<open>
  The relation between the graph of a CC before and after a pass that writes protein
  posteriors only: same vertices, same edges, and every vertex that is not a protein
  holds what it held.
\<close>

definition only_proteins_written :: "Graph \<Rightarrow> Graph \<Rightarrow> bool" where
  "only_proteins_written fg fg' \<longleftrightarrow>
     num_vertices fg' = num_vertices fg \<and>
     adjacent_vertices fg' = adjacent_vertices fg \<and>
     (\<forall>v. which (vertex_property fg v) \<noteq> 0 \<longrightarrow> vertex_property fg' v = vertex_property fg v)"

text \<open>
  The concrete component after a pass of the search, the parameters of the evaluation
  of the candidate \<open>a\<close> on the default grid, and the events of that evaluation.
\<close>

definition example_cc_searched :: Graph where
  "example_cc_searched =
     example_cc\<lparr>vertex_property :=
       (vertex_property example_cc)
         (0 := Protein \<lparr>prot_accession = ''A'', prot_score = 4 / 5, prot_meta_Prior = None\<rparr>,
          1 := Protein \<lparr>prot_accession = ''B'', prot_score = 4 / 5, prot_meta_Prior = None\<rparr>)\<rparr>"

definition search_params :: "real \<Rightarrow> param" where
  "search_params a =
     defaults\<lparr>update_PSM_probabilities := False, annotate_group_probabilities := False,
              prot_prior := 1 / 2, pep_emission := a, pep_spurious_emission := 1 / 1000\<rparr>"

definition search_events :: "real \<Rightarrow> event list" where
  "search_events a =
     [cout_Evaluating a (1 / 1000) (1 / 2), GraphInferenceFunctor_constructed (search_params a),
      to_graph, Scheduler_constructed (PriorityScheduler (1 / 1000) (1 / 100000) (2 ^ 31))]"

section \<open>Properties\<close>

subsection \<open>Evaluating the concrete component\<close>

lemmas example_defs =
  defaults_def example_params_def example_cc_def example_evergreen_def example_marginal_def
  example_score_def example_cc_inferred_def

lemmas functor_defs =
  GraphInferenceFunctor_def GraphInferenceFunctor_try_def vertices_def
  GraphInferenceFunctor_vertex_def gather_in_def insert_dependency_def
  estimate_posteriors_def make_MessagePasserFactory_def pnorm_of_def PriorityScheduler_def
  GraphInferenceFunctor_posterior_def last_support_def

lemmas orchestration_defs =
  inferPosteriorProbabilities_def grid_search_stage_def getNrCombos_def
  alpha_search_def beta_search_def gamma_search_def GridSearch_evaluate_def combos_def
  GridSearchEvaluator_def AnnotateIndistGroupsFunctor_def

lemma upt_4: "[0 ..< 4] = [0, 1, 2, 3]"
  by (simp add: upt_rec)

lemma example_run:
  "inferPosteriorProbabilities example_evergreen example_score example_params [example_cc] [] =
   (Returned, example_params, [example_cc_inferred],
    [\<lparr>probability = 1, accessions = [''A'', ''B'']\<rparr>],
    [cout ''Only one combination specified: Skipping grid search.'',
     cout_Best_params (4 / 5) (1 / 100) (1 / 2),
     cout ''Running with best parameters:'',
     GraphInferenceFunctor_constructed example_params,
     to_graph,
     Scheduler_constructed (PriorityScheduler (1 / 1000) (1 / 100000) (2 ^ 31))])"
  by (simp add: orchestration_defs functor_defs example_defs upt_4 Let_def)

subsection \<open>The requested posteriors and their write-back\<close>

lemma GraphInferenceFunctor_vertex_posteriorVars:
  "GraphInferenceFunctor_vertex ev mpf params fg ui st = Inr st' \<Longrightarrow>
   snd st' = snd st @ (if GraphInferenceFunctor_requests params fg ui then [[ui]] else [])"
  by (auto simp: GraphInferenceFunctor_vertex_def GraphInferenceFunctor_requests_def Let_def
      split: IDPointer.splits list.splits sum.splits if_splits)

lemma GraphInferenceFunctor_loop_posteriorVars:
  "for_each_vertex (GraphInferenceFunctor_vertex ev mpf params fg) vs st = Inr st' \<Longrightarrow>
   snd st' = snd st @ map (\<lambda>v. [v]) (filter (GraphInferenceFunctor_requests params fg) vs)"
proof (induction vs arbitrary: st)
  case Nil
  then show ?case by simp
next
  case (Cons ui vs)
  from Cons.prems obtain st1 where
    s1: "GraphInferenceFunctor_vertex ev mpf params fg ui st = Inr st1" and
    s2: "for_each_vertex (GraphInferenceFunctor_vertex ev mpf params fg) vs st1 = Inr st'"
    by (auto split: sum.splits)
  from Cons.IH [OF s2] GraphInferenceFunctor_vertex_posteriorVars [OF s1]
  show ?case by simp
qed

lemma set_posteriors_frame:
  "num_vertices (set_posteriors post pfs fg) = num_vertices fg \<and>
   adjacent_vertices (set_posteriors post pfs fg) = adjacent_vertices fg"
  by (induction pfs arbitrary: fg) (simp_all add: Let_def)

lemma set_posteriors_other:
  "v \<notin> set (map (\<lambda>pf. hd (ordered_variables pf)) pfs) \<Longrightarrow>
   vertex_property (set_posteriors post pfs fg) v = vertex_property fg v"
  by (induction pfs arbitrary: fg) (simp_all add: Let_def)

lemma set_posteriors_distinct:
  "distinct vs \<Longrightarrow> v \<in> set vs \<Longrightarrow>
   vertex_property
     (set_posteriors post
        (map (\<lambda>vars. \<lparr>ordered_variables = vars, pmf = marginal vars\<rparr>) (map (\<lambda>v. [v]) vs)) fg) v
   = SetPosteriorVisitor (vertex_property fg v) (post (marginal [v]))"
proof (induction vs arbitrary: fg)
  case Nil
  then show ?case by simp
next
  case (Cons u vs)
  show ?case
  proof (cases "v = u")
    case True
    with Cons.prems have "v \<notin> set vs" by simp
    then have "v \<notin> set (map (\<lambda>pf. hd (ordered_variables pf))
       (map (\<lambda>vars. \<lparr>ordered_variables = vars, pmf = marginal vars\<rparr>) (map (\<lambda>v. [v]) vs)))"
      by (simp add: comp_def)
    from set_posteriors_other [OF this] True show ?thesis by (simp add: Let_def)
  next
    case False
    with Cons.prems have "distinct vs" "v \<in> set vs" by simp_all
    from Cons.IH [OF this] False show ?thesis by (simp add: Let_def)
  qed
qed

lemma stored_after_visit:
  "which x \<in> {0, 1, 2, 6} \<Longrightarrow> stored_probability (SetPosteriorVisitor x p) = Some p"
  by (cases x) simp_all

lemma requests_which:
  "GraphInferenceFunctor_requests params fg ui \<Longrightarrow> which (vertex_property fg ui) \<in> {0, 1, 6}"
  by (auto simp: GraphInferenceFunctor_requests_def split: IDPointer.splits)

lemma ExtendedGraphInferenceFunctor_vertex_posteriorVars:
  "ExtendedGraphInferenceFunctor_vertex ev mpf fg ui st = Inr st' \<Longrightarrow>
   snd st' = snd st @ (if ExtendedGraphInferenceFunctor_requests fg ui then [[ui]] else [])"
  by (auto simp: ExtendedGraphInferenceFunctor_vertex_def ExtendedGraphInferenceFunctor_requests_def
      Let_def split: IDPointer.splits list.splits sum.splits if_splits)

lemma ExtendedGraphInferenceFunctor_loop_posteriorVars:
  "for_each_vertex (ExtendedGraphInferenceFunctor_vertex ev mpf fg) vs st = Inr st' \<Longrightarrow>
   snd st' = snd st @ map (\<lambda>v. [v]) (filter (ExtendedGraphInferenceFunctor_requests fg) vs)"
proof (induction vs arbitrary: st)
  case Nil
  then show ?case by simp
next
  case (Cons ui vs)
  from Cons.prems obtain st1 where
    s1: "ExtendedGraphInferenceFunctor_vertex ev mpf fg ui st = Inr st1" and
    s2: "for_each_vertex (ExtendedGraphInferenceFunctor_vertex ev mpf fg) vs st1 = Inr st'"
    by (auto split: sum.splits)
  from Cons.IH [OF s2] ExtendedGraphInferenceFunctor_vertex_posteriorVars [OF s1]
  show ?case by simp
qed

lemma distinct_vertices: "distinct (vertices fg)"
  by (simp add: vertices_def)

lemma GraphInferenceFunctor_success:
  assumes n: "2 \<le> num_vertices fg"
    and loop: "for_each_vertex
                 (GraphInferenceFunctor_vertex ev (make_MessagePasserFactory params) params fg)
                 (vertices fg) ([], []) = Inr (bigb, posteriorVars)"
    and bp: "belief_propagation ev (make_MessagePasserFactory params) bigb
               (PriorityScheduler (dampening_lambda params) (convergence_threshold params)
                  (max_nr_iterations params)) posteriorVars = Inr marginal"
  shows "GraphInferenceFunctor ev params fg =
           (Returned,
            set_posteriors GraphInferenceFunctor_posterior
              (map (\<lambda>vars. \<lparr>ordered_variables = vars, pmf = marginal vars\<rparr>) posteriorVars) fg,
            [to_graph, Scheduler_constructed
               (PriorityScheduler (dampening_lambda params) (convergence_threshold params)
                  (max_nr_iterations params))])"
  using n by (simp add: GraphInferenceFunctor_def GraphInferenceFunctor_try_def loop
      estimate_posteriors_def bp Let_def)

lemma ExtendedGraphInferenceFunctor_success:
  assumes n: "2 \<le> num_vertices fg"
    and loop: "for_each_vertex
                 (ExtendedGraphInferenceFunctor_vertex ev (make_MessagePasserFactory params) fg)
                 (vertices fg) ([], []) = Inr (bigb, posteriorVars)"
    and bp: "belief_propagation ev (make_MessagePasserFactory params) bigb
               (PriorityScheduler (dampening_lambda params) (convergence_threshold params)
                  (max_nr_iterations params)) posteriorVars = Inr marginal"
  shows "ExtendedGraphInferenceFunctor ev params fg =
           (Returned,
            set_posteriors ExtendedGraphInferenceFunctor_posterior
              (map (\<lambda>vars. \<lparr>ordered_variables = vars, pmf = marginal vars\<rparr>) posteriorVars) fg,
            [to_graph, Scheduler_constructed
               (PriorityScheduler (dampening_lambda params) (convergence_threshold params)
                  (max_nr_iterations params))])"
  using n by (simp add: ExtendedGraphInferenceFunctor_def ExtendedGraphInferenceFunctor_try_def loop
      estimate_posteriors_def bp Let_def)

lemma vertices_example: "vertices example_cc = [0, 1, 2, 3]"
  by (simp add: vertices_def example_cc_def upt_rec)

lemma loop_example:
  "for_each_vertex (GraphInferenceFunctor_vertex example_evergreen mpf example_params example_cc)
     (vertices example_cc) ([], []) =
   Inr ([createProteinFactor 0, createProteinFactor 1,
         createPeptideProbabilisticAdderFactor [0, 1] 2,
         createSumEvidenceFactor 2 2 3, createPeptideEvidenceFactor 3 0.9],
        [[0], [1], [2], [3]])"
  unfolding vertices_example
  by (simp add: GraphInferenceFunctor_vertex_def gather_in_def
      insert_dependency_def example_evergreen_def example_cc_def example_params_def defaults_def)

lemma extended_loop_example:
  "for_each_vertex (ExtendedGraphInferenceFunctor_vertex example_evergreen mpf example_cc)
     (vertices example_cc) ([], []) =
   Inr ([createProteinFactor 0, createProteinFactor 1,
         createPeptideProbabilisticAdderFactor [0, 1] 2,
         createSumEvidenceFactor 2 2 3, createPeptideEvidenceFactor 3 0.9],
        [[0], [1]])"
  unfolding vertices_example
  by (simp add: ExtendedGraphInferenceFunctor_vertex_def gather_in_def
      insert_dependency_def example_evergreen_def example_cc_def)

text \<open>
  Claim C1, as the code has it. Every requested variable list is a single vertex. On
  the path without exception, \<^verbatim>\<open>GraphInferenceFunctor\<close> stores in that vertex
  \<open>1 - table[0]\<close> when 0 lies in the support of the marginal and 1 otherwise;
  \<^verbatim>\<open>ExtendedGraphInferenceFunctor\<close> stores \<open>table[1 - first_support]\<close> when 1 lies in the
  support and 0 otherwise.
\<close>

theorem posteriors_written_back:
  "(2 \<le> num_vertices fg \<and>
    for_each_vertex (GraphInferenceFunctor_vertex ev (make_MessagePasserFactory params) params fg)
      (vertices fg) ([], []) = Inr (bigb, posteriorVars) \<and>
    belief_propagation ev (make_MessagePasserFactory params) bigb
      (PriorityScheduler (dampening_lambda params) (convergence_threshold params)
         (max_nr_iterations params)) posteriorVars = Inr marginal \<and>
    vars \<in> set posteriorVars \<longrightarrow>
    (\<exists>nodeId. vars = [nodeId] \<and>
       fst (GraphInferenceFunctor ev params fg) = Returned \<and>
       stored_probability
         (vertex_property (fst (snd (GraphInferenceFunctor ev params fg))) nodeId) =
       Some (if first_support (marginal vars) \<le> 0 \<and> 0 \<le> last_support (marginal vars)
             then 1 - table (marginal vars) ! 0 else 1))) \<and>
   (2 \<le> num_vertices fg \<and>
    for_each_vertex (ExtendedGraphInferenceFunctor_vertex ev (make_MessagePasserFactory params) fg)
      (vertices fg) ([], []) = Inr (bigb', posteriorVars') \<and>
    belief_propagation ev (make_MessagePasserFactory params) bigb'
      (PriorityScheduler (dampening_lambda params) (convergence_threshold params)
         (max_nr_iterations params)) posteriorVars' = Inr marginal' \<and>
    vars' \<in> set posteriorVars' \<longrightarrow>
    (\<exists>nodeId. vars' = [nodeId] \<and>
       fst (ExtendedGraphInferenceFunctor ev params fg) = Returned \<and>
       stored_probability
         (vertex_property (fst (snd (ExtendedGraphInferenceFunctor ev params fg))) nodeId) =
       Some (if first_support (marginal' vars') \<le> 1 \<and> 1 \<le> last_support (marginal' vars')
             then table (marginal' vars') ! nat (1 - first_support (marginal' vars')) else 0)))"
proof (intro conjI impI; elim conjE)
  assume n: "2 \<le> num_vertices fg"
    and loop: "for_each_vertex
                 (GraphInferenceFunctor_vertex ev (make_MessagePasserFactory params) params fg)
                 (vertices fg) ([], []) = Inr (bigb, posteriorVars)"
    and bp: "belief_propagation ev (make_MessagePasserFactory params) bigb
               (PriorityScheduler (dampening_lambda params) (convergence_threshold params)
                  (max_nr_iterations params)) posteriorVars = Inr marginal"
    and v: "vars \<in> set posteriorVars"
  let ?req = "filter (GraphInferenceFunctor_requests params fg) (vertices fg)"
  from GraphInferenceFunctor_loop_posteriorVars [OF loop]
  have pv: "posteriorVars = map (\<lambda>v. [v]) ?req" by simp
  with v obtain nodeId where nd: "vars = [nodeId]" "nodeId \<in> set ?req" by auto
  have d: "distinct ?req" by (simp add: distinct_vertices)
  from nd have w: "which (vertex_property fg nodeId) \<in> {0, 1, 2, 6}"
    using requests_which [of params fg nodeId] by auto
  have "vertex_property (fst (snd (GraphInferenceFunctor ev params fg))) nodeId =
        SetPosteriorVisitor (vertex_property fg nodeId)
          (GraphInferenceFunctor_posterior (marginal [nodeId]))"
    using set_posteriors_distinct [OF d nd(2), of GraphInferenceFunctor_posterior marginal fg]
    by (simp add: GraphInferenceFunctor_success [OF n loop bp] pv)
  with w nd(1) show "\<exists>nodeId. vars = [nodeId] \<and>
       fst (GraphInferenceFunctor ev params fg) = Returned \<and>
       stored_probability
         (vertex_property (fst (snd (GraphInferenceFunctor ev params fg))) nodeId) =
       Some (if first_support (marginal vars) \<le> 0 \<and> 0 \<le> last_support (marginal vars)
             then 1 - table (marginal vars) ! 0 else 1)"
    by (simp add: GraphInferenceFunctor_success [OF n loop bp] stored_after_visit
        GraphInferenceFunctor_posterior_def)
next
  assume n: "2 \<le> num_vertices fg"
    and loop: "for_each_vertex
                 (ExtendedGraphInferenceFunctor_vertex ev (make_MessagePasserFactory params) fg)
                 (vertices fg) ([], []) = Inr (bigb', posteriorVars')"
    and bp: "belief_propagation ev (make_MessagePasserFactory params) bigb'
               (PriorityScheduler (dampening_lambda params) (convergence_threshold params)
                  (max_nr_iterations params)) posteriorVars' = Inr marginal'"
    and v: "vars' \<in> set posteriorVars'"
  let ?req = "filter (ExtendedGraphInferenceFunctor_requests fg) (vertices fg)"
  from ExtendedGraphInferenceFunctor_loop_posteriorVars [OF loop]
  have pv: "posteriorVars' = map (\<lambda>v. [v]) ?req" by simp
  with v obtain nodeId where nd: "vars' = [nodeId]" "nodeId \<in> set ?req" by auto
  have d: "distinct ?req" by (simp add: distinct_vertices)
  from nd have w: "which (vertex_property fg nodeId) \<in> {0, 1, 2, 6}"
    by (simp add: ExtendedGraphInferenceFunctor_requests_def)
  have "vertex_property (fst (snd (ExtendedGraphInferenceFunctor ev params fg))) nodeId =
        SetPosteriorVisitor (vertex_property fg nodeId)
          (ExtendedGraphInferenceFunctor_posterior (marginal' [nodeId]))"
    using set_posteriors_distinct
      [OF d nd(2), of ExtendedGraphInferenceFunctor_posterior marginal' fg]
    by (simp add: ExtendedGraphInferenceFunctor_success [OF n loop bp] pv)
  with w nd(1) show "\<exists>nodeId. vars' = [nodeId] \<and>
       fst (ExtendedGraphInferenceFunctor ev params fg) = Returned \<and>
       stored_probability
         (vertex_property (fst (snd (ExtendedGraphInferenceFunctor ev params fg))) nodeId) =
       Some (if first_support (marginal' vars') \<le> 1 \<and> 1 \<le> last_support (marginal' vars')
             then table (marginal' vars') ! nat (1 - first_support (marginal' vars')) else 0)"
    by (simp add: ExtendedGraphInferenceFunctor_success [OF n loop bp] stored_after_visit
        ExtendedGraphInferenceFunctor_posterior_def)
qed


theorem posteriors_written_back_witness:
  "stored_probability
     (vertex_property (fst (snd (GraphInferenceFunctor example_evergreen example_params example_cc))) 2)
   = Some 1 \<and>
   stored_probability
     (vertex_property
        (fst (snd (ExtendedGraphInferenceFunctor example_evergreen example_params example_cc))) 0)
   = Some (4 / 5)"
  using posteriors_written_back
    [where fg = example_cc and ev = example_evergreen and params = example_params
       and bigb = "[createProteinFactor 0, createProteinFactor 1,
                    createPeptideProbabilisticAdderFactor [0, 1] 2,
                    createSumEvidenceFactor 2 2 3, createPeptideEvidenceFactor 3 0.9]"
       and posteriorVars = "[[0], [1], [2], [3]]" and marginal = example_marginal
       and vars = "[2]"
       and bigb' = "[createProteinFactor 0, createProteinFactor 1,
                     createPeptideProbabilisticAdderFactor [0, 1] 2,
                     createSumEvidenceFactor 2 2 3, createPeptideEvidenceFactor 3 0.9]"
       and posteriorVars' = "[[0], [1]]" and marginal' = example_marginal
       and vars' = "[0]"]
  by (simp add: loop_example extended_loop_example)
     (simp add: example_evergreen_def example_cc_def example_marginal_def last_support_def)

text \<open>
  The claim as it is written fails on the group of the concrete component: 0 is not in
  the support \<open>{1, 2}\<close> of its marginal, so the specification asks for
  \<open>table[1 - 1] = 1/4\<close>, and \<^verbatim>\<open>GraphInferenceFunctor\<close> writes 1.
\<close>

theorem posterior_extraction_counterexample:
  "stored_probability
     (vertex_property (fst (snd (GraphInferenceFunctor example_evergreen example_params example_cc))) 2)
   = Some 1 \<and> specified_posterior (example_marginal [2]) = 1 / 4"
  apply (simp add: GraphInferenceFunctor_def GraphInferenceFunctor_try_def loop_example
     estimate_posteriors_def Let_def)
  apply (simp add: example_evergreen_def example_cc_def example_marginal_def
     GraphInferenceFunctor_posterior_def last_support_def specified_posterior_def)
  done

subsection \<open>The scheduler\<close>

lemma upt_2: "[0 ..< 2] = [0, 1]"
  by (simp add: upt_rec)

lemmas extended_functor_defs =
  ExtendedGraphInferenceFunctor_def ExtendedGraphInferenceFunctor_try_def vertices_def
  ExtendedGraphInferenceFunctor_vertex_def gather_in_def insert_dependency_def
  estimate_posteriors_def make_MessagePasserFactory_def pnorm_of_def PriorityScheduler_def
  ExtendedGraphInferenceFunctor_posterior_def last_support_def

text \<open>
  Claim C2 says that the scheduling strategy is the one that the parameter
  \<^verbatim>\<open>loopy_belief_propagation:scheduling_type\<close> selects. Both functors construct a
  \<^verbatim>\<open>PriorityScheduler\<close> and never read the parameter: with \<^verbatim>\<open>fifo\<close> or
  \<^verbatim>\<open>random_spanning_tree\<close> configured, the scheduler handed to the engine is the
  priority scheduler.
\<close>

theorem scheduling_type_is_ignored:
  "snd (snd (GraphInferenceFunctor example_evergreen
               (example_params\<lparr>scheduling_type := fifo\<rparr>) example_cc)) =
     [to_graph,
      Scheduler_constructed
        \<lparr>strategy = priority, sched_dampening_lambda = 1 / 1000,
         sched_convergence_threshold = 1 / 100000, sched_max_nr_iterations = 2 ^ 31\<rparr>] \<and>
   snd (snd (ExtendedGraphInferenceFunctor example_evergreen
               (example_params\<lparr>scheduling_type := random_spanning_tree\<rparr>) example_cc)) =
     [to_graph,
      Scheduler_constructed
        \<lparr>strategy = priority, sched_dampening_lambda = 1 / 1000,
         sched_convergence_threshold = 1 / 100000, sched_max_nr_iterations = 2 ^ 31\<rparr>]"
  by (simp add: functor_defs extended_functor_defs example_defs upt_4 Let_def)

subsection \<open>Calls of the builder's hand-over\<close>

text \<open>
  Claim C3 says that \<^verbatim>\<open>to_graph()\<close> is invoked exactly once per CC on every path. When
  belief propagation throws a runtime error, after the graph was built,
  \<^verbatim>\<open>ExtendedGraphInferenceFunctor\<close> invokes it a second time in its handler and returns;
  \<^verbatim>\<open>GraphInferenceFunctor\<close>, which keeps the flag \<^verbatim>\<open>graph_mp_ownership_acquired\<close>, invokes
  it once.
\<close>

theorem extended_functor_builds_twice:
  "fst (ExtendedGraphInferenceFunctor (failing_inference (Runtime_error ''underflow''))
          example_params example_cc) = Returned \<and>
   count_list (snd (snd (ExtendedGraphInferenceFunctor
                           (failing_inference (Runtime_error ''underflow''))
                           example_params example_cc))) to_graph = 2 \<and>
   count_list (snd (snd (GraphInferenceFunctor
                           (failing_inference (Runtime_error ''underflow''))
                           example_params example_cc))) to_graph = 1"
  by (simp add: functor_defs extended_functor_defs example_defs failing_inference_def
      upt_4 Let_def)

subsection \<open>A PSM without input\<close>

lemma which_le_6: "which x \<le> 6"
  by (cases x) simp_all

lemma well_formed_psm_has_input:
  assumes wf: "well_formed_cc fg" and v: "ui \<in> set (vertices fg)"
    and psm: "which (vertex_property fg ui) = 6"
  shows "gather_in fg ui \<noteq> []"
proof -
  from wf v have ne: "adjacent_vertices fg ui \<noteq> []"
    and diff: "\<forall>nb \<in> set (adjacent_vertices fg ui).
                 which (vertex_property fg nb) \<noteq> which (vertex_property fg ui)"
    by (auto simp: well_formed_cc_def list_all_iff)
  from ne obtain nb where nb: "nb \<in> set (adjacent_vertices fg ui)"
    by (cases "adjacent_vertices fg ui") auto
  with diff psm have "which (vertex_property fg nb) \<noteq> 6" by auto
  with which_le_6 [of "vertex_property fg nb"] psm
  have "which (vertex_property fg nb) < which (vertex_property fg ui)" by simp
  with nb have "nb \<in> set (gather_in fg ui)" by (simp add: gather_in_def)
  then show ?thesis by auto
qed

lemma insert_dependency_no_ub:
  "insert_dependency ev mpf f bigb \<noteq> Inl Undefined_behaviour"
  by (simp add: insert_dependency_def split: option.splits)

lemma GraphInferenceFunctor_vertex_no_ub:
  assumes "which (vertex_property fg ui) = 6 \<longrightarrow> gather_in fg ui \<noteq> []"
  shows "GraphInferenceFunctor_vertex ev mpf params fg ui st \<noteq> Inl Undefined_behaviour"
  using assms insert_dependency_no_ub [of ev mpf]
  by (auto simp: GraphInferenceFunctor_vertex_def Let_def
      split: IDPointer.splits list.splits sum.splits)

lemma ExtendedGraphInferenceFunctor_vertex_no_ub:
  assumes "which (vertex_property fg ui) = 6 \<longrightarrow> gather_in fg ui \<noteq> []"
  shows "ExtendedGraphInferenceFunctor_vertex ev mpf fg ui st \<noteq> Inl Undefined_behaviour"
  using assms insert_dependency_no_ub [of ev mpf]
  by (auto simp: ExtendedGraphInferenceFunctor_vertex_def Let_def
      split: IDPointer.splits list.splits sum.splits)

lemma for_each_vertex_no_ub:
  assumes "\<And>ui st. ui \<in> set vs \<Longrightarrow> body ui st \<noteq> Inl Undefined_behaviour"
  shows "for_each_vertex body vs st \<noteq> Inl Undefined_behaviour"
  using assms
proof (induction vs arbitrary: st)
  case Nil
  show ?case by simp
next
  case (Cons ui vs)
  then show ?case
    by (cases "body ui st") auto
qed

lemma example_well_formed: "well_formed_cc example_cc"
  unfolding well_formed_cc_def vertices_example by (simp add: example_cc_def)

lemma psm_pair_not_well_formed: "\<not> well_formed_cc psm_pair_cc"
  by (simp add: well_formed_cc_def vertices_def psm_pair_cc_def upt_2)

text \<open>
  Claim C5, as the code has it. Neither functor guards \<^verbatim>\<open>in[0]\<close> or raises an error
  for a PSM without input; they rely on the shape of the component. In a component of
  that shape every PSM vertex has a neighbour of strictly lower \<^verbatim>\<open>which()\<close> (6 is the
  largest discriminant), so the vector \<^verbatim>\<open>in\<close> is not empty where its first element is
  read, and no run of either functor reads it on an empty vector.
\<close>

theorem well_formed_component_never_reads_empty_input:
  "well_formed_cc fg \<longrightarrow>
     (ui < num_vertices fg \<and> which (vertex_property fg ui) = 6 \<longrightarrow> gather_in fg ui \<noteq> []) \<and>
     fst (GraphInferenceFunctor ev params fg) \<noteq> Undefined_behaviour_reached \<and>
     fst (ExtendedGraphInferenceFunctor ev params fg) \<noteq> Undefined_behaviour_reached"
proof (intro impI conjI)
  assume wf: "well_formed_cc fg"
  have inp: "\<And>v. v \<in> set (vertices fg) \<Longrightarrow>
               which (vertex_property fg v) = 6 \<longrightarrow> gather_in fg v \<noteq> []"
    using well_formed_psm_has_input [OF wf] by blast
  assume "ui < num_vertices fg \<and> which (vertex_property fg ui) = 6"
  then show "gather_in fg ui \<noteq> []"
    using inp [of ui] by (simp add: vertices_def)
next
  assume wf: "well_formed_cc fg"
  have inp: "\<And>v. v \<in> set (vertices fg) \<Longrightarrow>
               which (vertex_property fg v) = 6 \<longrightarrow> gather_in fg v \<noteq> []"
    using well_formed_psm_has_input [OF wf] by blast
  have "for_each_vertex
          (GraphInferenceFunctor_vertex ev (make_MessagePasserFactory params) params fg)
          (vertices fg) ([], []) \<noteq> Inl Undefined_behaviour"
    by (rule for_each_vertex_no_ub) (rule GraphInferenceFunctor_vertex_no_ub, rule inp)
  then have "fst (GraphInferenceFunctor_try ev params fg) \<noteq> Inl Undefined_behaviour"
    by (auto simp: GraphInferenceFunctor_try_def Let_def split: sum.splits prod.splits)
  then show "fst (GraphInferenceFunctor ev params fg) \<noteq> Undefined_behaviour_reached"
    by (auto simp: GraphInferenceFunctor_def
        split: prod.splits sum.splits abort.splits cpp_exception.splits)
next
  assume wf: "well_formed_cc fg"
  have inp: "\<And>v. v \<in> set (vertices fg) \<Longrightarrow>
               which (vertex_property fg v) = 6 \<longrightarrow> gather_in fg v \<noteq> []"
    using well_formed_psm_has_input [OF wf] by blast
  have "for_each_vertex
          (ExtendedGraphInferenceFunctor_vertex ev (make_MessagePasserFactory params) fg)
          (vertices fg) ([], []) \<noteq> Inl Undefined_behaviour"
    by (rule for_each_vertex_no_ub) (rule ExtendedGraphInferenceFunctor_vertex_no_ub, rule inp)
  then have "fst (ExtendedGraphInferenceFunctor_try ev params fg) \<noteq> Inl Undefined_behaviour"
    by (auto simp: ExtendedGraphInferenceFunctor_try_def Let_def split: sum.splits prod.splits)
  then show "fst (ExtendedGraphInferenceFunctor ev params fg) \<noteq> Undefined_behaviour_reached"
    by (auto simp: ExtendedGraphInferenceFunctor_def
        split: prod.splits sum.splits abort.splits cpp_exception.splits)
qed

theorem well_formed_component_never_reads_empty_input_witness:
  "well_formed_cc example_cc \<and> which (vertex_property example_cc 3) = 6 \<and>
   gather_in example_cc 3 = [2] \<and>
   fst (GraphInferenceFunctor example_evergreen example_params example_cc) = Returned \<and>
   fst (ExtendedGraphInferenceFunctor example_evergreen example_params example_cc) = Returned"
proof -
  note t = well_formed_component_never_reads_empty_input
    [where fg = example_cc and ui = 3 and ev = example_evergreen and params = example_params,
     THEN mp, OF example_well_formed]
  have w: "which (vertex_property example_cc 3) = 6" "(3::nat) < num_vertices example_cc"
    by (simp_all add: example_cc_def)
  with t have ne: "gather_in example_cc 3 \<noteq> []" by simp
  have g: "gather_in example_cc 3 = [2]"
    using ne by (simp add: gather_in_def example_cc_def)
  have r: "fst (GraphInferenceFunctor example_evergreen example_params example_cc) = Returned"
    using t by (simp add: functor_defs example_defs upt_4 Let_def)
  have x: "fst (ExtendedGraphInferenceFunctor example_evergreen example_params example_cc) = Returned"
    using t by (simp add: extended_functor_defs example_defs upt_4 Let_def)
  from example_well_formed w g r x show ?thesis by simp
qed


text \<open>
  The claim as it is written fails on a PSM vertex that does have no neighbour of lower
  \<^verbatim>\<open>which()\<close>: on the graph of two PSMs the vector is empty, the element is read all the
  same, and the run ends in undefined behaviour, with no error raised, no warning and no
  recovery.
\<close>

theorem unguarded_access_counterexample:
  "gather_in psm_pair_cc 0 = [] \<and>
   GraphInferenceFunctor example_evergreen example_params psm_pair_cc =
     (Undefined_behaviour_reached, psm_pair_cc, []) \<and>
   ExtendedGraphInferenceFunctor example_evergreen example_params psm_pair_cc =
     (Undefined_behaviour_reached, psm_pair_cc, [])"
  by (simp add: functor_defs extended_functor_defs example_defs psm_pair_cc_def
      upt_2 Let_def)

subsection \<open>Exceptions in a connected component\<close>

lemma GraphInferenceFunctor_try_thrown:
  assumes "for_each_vertex
             (GraphInferenceFunctor_vertex ev (make_MessagePasserFactory params) params fg)
             (vertices fg) ([], []) = Inl (Thrown e) \<or>
           (for_each_vertex
              (GraphInferenceFunctor_vertex ev (make_MessagePasserFactory params) params fg)
              (vertices fg) ([], []) = Inr (bigb, posteriorVars) \<and>
            belief_propagation ev (make_MessagePasserFactory params) bigb
              (PriorityScheduler (dampening_lambda params) (convergence_threshold params)
                 (max_nr_iterations params)) posteriorVars = Inl e)"
  shows "\<exists>acquired events. GraphInferenceFunctor_try ev params fg = (Inl (Thrown e), acquired, events) \<and> (events = [] \<or> acquired)"
  using assms
  by (auto simp: GraphInferenceFunctor_try_def estimate_posteriors_def Let_def)

lemma ExtendedGraphInferenceFunctor_try_thrown:
  assumes "for_each_vertex
             (ExtendedGraphInferenceFunctor_vertex ev (make_MessagePasserFactory params) fg)
             (vertices fg) ([], []) = Inl (Thrown e) \<or>
           (for_each_vertex
              (ExtendedGraphInferenceFunctor_vertex ev (make_MessagePasserFactory params) fg)
              (vertices fg) ([], []) = Inr (bigb, posteriorVars) \<and>
            belief_propagation ev (make_MessagePasserFactory params) bigb
              (PriorityScheduler (dampening_lambda params) (convergence_threshold params)
                 (max_nr_iterations params)) posteriorVars = Inl e)"
  shows "\<exists>events. ExtendedGraphInferenceFunctor_try ev params fg = (Inl (Thrown e), events)"
  using assms
  by (auto simp: ExtendedGraphInferenceFunctor_try_def estimate_posteriors_def Let_def)

lemma GraphInferenceFunctor_never_propagates_runtime_error:
  "fst (GraphInferenceFunctor ev params fg) \<noteq> Propagated (Runtime_error w)"
  by (auto simp: GraphInferenceFunctor_def split: prod.splits sum.splits abort.splits
      cpp_exception.splits)

lemma driver_never_propagates_runtime_error:
  "fst (applyFunctorOnCCs (GraphInferenceFunctor ev params) ccs) \<noteq> Propagated (Runtime_error w)"
proof (induction ccs)
  case Nil
  show ?case by simp
next
  case (Cons cc ccs)
  then show ?case
    using GraphInferenceFunctor_never_propagates_runtime_error [of ev params cc w]
    by (auto split: prod.splits)
qed

lemma loop_example_any:
  "insert_dependency_throws ev = (\<lambda>mpf f. None) \<Longrightarrow>
   for_each_vertex (GraphInferenceFunctor_vertex ev mpf example_params example_cc)
     (vertices example_cc) ([], []) =
   Inr ([createProteinFactor 0, createProteinFactor 1,
         createPeptideProbabilisticAdderFactor [0, 1] 2,
         createSumEvidenceFactor 2 2 3, createPeptideEvidenceFactor 3 0.9],
        [[0], [1], [2], [3]])"
  unfolding vertices_example
  by (simp add: GraphInferenceFunctor_vertex_def gather_in_def
      insert_dependency_def example_cc_def example_params_def defaults_def)

lemma extended_loop_example_any:
  "insert_dependency_throws ev = (\<lambda>mpf f. None) \<Longrightarrow>
   for_each_vertex (ExtendedGraphInferenceFunctor_vertex ev mpf example_cc)
     (vertices example_cc) ([], []) =
   Inr ([createProteinFactor 0, createProteinFactor 1,
         createPeptideProbabilisticAdderFactor [0, 1] 2,
         createSumEvidenceFactor 2 2 3, createPeptideEvidenceFactor 3 0.9],
        [[0], [1]])"
  unfolding vertices_example
  by (simp add: ExtendedGraphInferenceFunctor_vertex_def gather_in_def
      insert_dependency_def example_cc_def)

lemma loop_failing_insertion:
  "for_each_vertex (GraphInferenceFunctor_vertex (failing_insertion e) mpf example_params example_cc)
     (vertices example_cc) ([], []) = Inl (Thrown e)"
  "for_each_vertex (ExtendedGraphInferenceFunctor_vertex (failing_insertion e) mpf example_cc)
     (vertices example_cc) ([], []) = Inl (Thrown e)"
  unfolding vertices_example
  by (simp_all add: GraphInferenceFunctor_vertex_def ExtendedGraphInferenceFunctor_vertex_def
      gather_in_def insert_dependency_def example_cc_def example_params_def defaults_def failing_insertion_def)

text \<open>
  Claim C4, with the warning that the code emits. If building the dependencies or
  belief propagation throws a \<^verbatim>\<open>std::runtime_error\<close> (the class under which the numeric
  and graph-shape failures of the library arrive), \<^verbatim>\<open>GraphInferenceFunctor\<close> returns,
  leaves the graph of the CC as it was, and its last event is the warning
  \<open>emitted_warning\<close>; the driver carries on with the remaining CCs, and no run of the
  driver ends with a runtime error in flight.
\<close>

theorem runtime_error_skips_component:
  "(2 \<le> num_vertices fg \<and>
    (for_each_vertex
       (GraphInferenceFunctor_vertex ev (make_MessagePasserFactory params) params fg)
       (vertices fg) ([], []) = Inl (Thrown (Runtime_error w)) \<or>
     (for_each_vertex
        (GraphInferenceFunctor_vertex ev (make_MessagePasserFactory params) params fg)
        (vertices fg) ([], []) = Inr (bigb, posteriorVars) \<and>
      belief_propagation ev (make_MessagePasserFactory params) bigb
        (PriorityScheduler (dampening_lambda params) (convergence_threshold params)
           (max_nr_iterations params)) posteriorVars = Inl (Runtime_error w))) \<longrightarrow>
    fst (GraphInferenceFunctor ev params fg) = Returned \<and>
    fst (snd (GraphInferenceFunctor ev params fg)) = fg \<and>
    last (snd (snd (GraphInferenceFunctor ev params fg))) = LOG_WARN emitted_warning \<and>
    applyFunctorOnCCs (GraphInferenceFunctor ev params) (fg # ccs) =
      (fst (applyFunctorOnCCs (GraphInferenceFunctor ev params) ccs),
       fg # fst (snd (applyFunctorOnCCs (GraphInferenceFunctor ev params) ccs)),
       snd (snd (GraphInferenceFunctor ev params fg)) @
       snd (snd (applyFunctorOnCCs (GraphInferenceFunctor ev params) ccs)))) \<and>
   fst (applyFunctorOnCCs (GraphInferenceFunctor ev params) ccs') \<noteq>
     Propagated (Runtime_error w')"
proof (intro conjI impI)
  assume a: "2 \<le> num_vertices fg \<and>
    (for_each_vertex
       (GraphInferenceFunctor_vertex ev (make_MessagePasserFactory params) params fg)
       (vertices fg) ([], []) = Inl (Thrown (Runtime_error w)) \<or>
     (for_each_vertex
        (GraphInferenceFunctor_vertex ev (make_MessagePasserFactory params) params fg)
        (vertices fg) ([], []) = Inr (bigb, posteriorVars) \<and>
      belief_propagation ev (make_MessagePasserFactory params) bigb
        (PriorityScheduler (dampening_lambda params) (convergence_threshold params)
           (max_nr_iterations params)) posteriorVars = Inl (Runtime_error w)))"
  then obtain acquired events where
    t: "GraphInferenceFunctor_try ev params fg = (Inl (Thrown (Runtime_error w)), acquired, events)"
    using GraphInferenceFunctor_try_thrown [of ev params fg "Runtime_error w" bigb posteriorVars]
    by blast
  from a t show r: "fst (GraphInferenceFunctor ev params fg) = Returned"
    by (simp add: GraphInferenceFunctor_def)
  from a t show g: "fst (snd (GraphInferenceFunctor ev params fg)) = fg"
    by (simp add: GraphInferenceFunctor_def)
  from a t show "last (snd (snd (GraphInferenceFunctor ev params fg))) = LOG_WARN emitted_warning"
    by (simp add: GraphInferenceFunctor_def emitted_warning_def)
  from a r g show "applyFunctorOnCCs (GraphInferenceFunctor ev params) (fg # ccs) =
      (fst (applyFunctorOnCCs (GraphInferenceFunctor ev params) ccs),
       fg # fst (snd (applyFunctorOnCCs (GraphInferenceFunctor ev params) ccs)),
       snd (snd (GraphInferenceFunctor ev params fg)) @
       snd (snd (applyFunctorOnCCs (GraphInferenceFunctor ev params) ccs)))"
    by (auto split: prod.splits)
next
  show "fst (applyFunctorOnCCs (GraphInferenceFunctor ev params) ccs') \<noteq>
     Propagated (Runtime_error w')"
    by (rule driver_never_propagates_runtime_error)
qed

theorem runtime_error_skips_component_witness:
  "GraphInferenceFunctor (failing_inference (Runtime_error ''underflow'')) example_params example_cc =
     (Returned, example_cc,
      [to_graph, Scheduler_constructed (PriorityScheduler (1 / 1000) (1 / 100000) (2 ^ 31)),
       LOG_WARN emitted_warning]) \<and>
   GraphInferenceFunctor (failing_insertion (Runtime_error ''no such edge'')) example_params example_cc =
     (Returned, example_cc, [to_graph, LOG_WARN emitted_warning]) \<and>
   fst (snd (applyFunctorOnCCs
               (GraphInferenceFunctor (failing_inference (Runtime_error ''underflow'')) example_params)
               [example_cc, example_cc_inferred])) = [example_cc, example_cc_inferred]"
  using runtime_error_skips_component
    [where ev = "failing_inference (Runtime_error ''underflow'')" and params = example_params
       and fg = example_cc and w = "''underflow''" and ccs = "[]"
       and bigb = "[createProteinFactor 0, createProteinFactor 1,
                    createPeptideProbabilisticAdderFactor [0, 1] 2,
                    createSumEvidenceFactor 2 2 3, createPeptideEvidenceFactor 3 0.9]"
       and posteriorVars = "[[0], [1], [2], [3]]"]
    runtime_error_skips_component
    [where ev = "failing_insertion (Runtime_error ''no such edge'')" and params = example_params
       and fg = example_cc and w = "''no such edge''" and ccs = "[]"]
    runtime_error_skips_component
    [where ev = "failing_inference (Runtime_error ''underflow'')" and params = example_params
       and fg = example_cc and w = "''underflow''" and ccs = "[example_cc_inferred]"
       and bigb = "[createProteinFactor 0, createProteinFactor 1,
                    createPeptideProbabilisticAdderFactor [0, 1] 2,
                    createSumEvidenceFactor 2 2 3, createPeptideEvidenceFactor 3 0.9]"
       and posteriorVars = "[[0], [1], [2], [3]]"]
  apply (simp add: loop_failing_insertion loop_example_any failing_inference_def)
  apply (simp add: functor_defs example_defs failing_insertion_def emitted_warning_def upt_4 Let_def)
  done


text \<open>
  The claim as it is written fails on the text of the warning: the specification quotes
  \<open>specified_warning\<close>, the functor emits \<open>emitted_warning\<close>.
\<close>

theorem warning_text_counterexample:
  "snd (snd (GraphInferenceFunctor (failing_inference (Runtime_error ''underflow''))
               example_params example_cc)) =
     [to_graph,
      Scheduler_constructed
        \<lparr>strategy = priority, sched_dampening_lambda = 1 / 1000,
         sched_convergence_threshold = 1 / 100000, sched_max_nr_iterations = 2 ^ 31\<rparr>,
      LOG_WARN emitted_warning] \<and>
   emitted_warning \<noteq> specified_warning"
  by (simp add: functor_defs example_defs failing_inference_def upt_4 Let_def
      emitted_warning_def specified_warning_def)


text \<open>
  Claim C10. Both functors catch \<^verbatim>\<open>std::runtime_error\<close> only. Whatever exception \<open>e\<close>
  ends the building of the dependencies or belief propagation: if \<open>e\<close> is a runtime
  error the functor returns and the driver goes on with the remaining CCs; if it is of
  any other type it leaves the functor and the driver.
\<close>

theorem only_runtime_errors_are_caught:
  "(2 \<le> num_vertices fg \<and>
    (for_each_vertex
       (GraphInferenceFunctor_vertex ev (make_MessagePasserFactory params) params fg)
       (vertices fg) ([], []) = Inl (Thrown e) \<or>
     (for_each_vertex
        (GraphInferenceFunctor_vertex ev (make_MessagePasserFactory params) params fg)
        (vertices fg) ([], []) = Inr (bigb, posteriorVars) \<and>
      belief_propagation ev (make_MessagePasserFactory params) bigb
        (PriorityScheduler (dampening_lambda params) (convergence_threshold params)
           (max_nr_iterations params)) posteriorVars = Inl e)) \<longrightarrow>
    fst (GraphInferenceFunctor ev params fg) =
      (case e of Runtime_error w \<Rightarrow> Returned | Other_exception w \<Rightarrow> Propagated e) \<and>
    fst (applyFunctorOnCCs (GraphInferenceFunctor ev params) (fg # ccs)) =
      (case e of
         Runtime_error w \<Rightarrow> fst (applyFunctorOnCCs (GraphInferenceFunctor ev params) ccs)
       | Other_exception w \<Rightarrow> Propagated e)) \<and>
   (2 \<le> num_vertices fg \<and>
    (for_each_vertex
       (ExtendedGraphInferenceFunctor_vertex ev (make_MessagePasserFactory params) fg)
       (vertices fg) ([], []) = Inl (Thrown e') \<or>
     (for_each_vertex
        (ExtendedGraphInferenceFunctor_vertex ev (make_MessagePasserFactory params) fg)
        (vertices fg) ([], []) = Inr (bigb', posteriorVars') \<and>
      belief_propagation ev (make_MessagePasserFactory params) bigb'
        (PriorityScheduler (dampening_lambda params) (convergence_threshold params)
           (max_nr_iterations params)) posteriorVars' = Inl e')) \<longrightarrow>
    fst (ExtendedGraphInferenceFunctor ev params fg) =
      (case e' of Runtime_error w \<Rightarrow> Returned | Other_exception w \<Rightarrow> Propagated e') \<and>
    fst (applyFunctorOnCCs (ExtendedGraphInferenceFunctor ev params) (fg # ccs)) =
      (case e' of
         Runtime_error w \<Rightarrow> fst (applyFunctorOnCCs (ExtendedGraphInferenceFunctor ev params) ccs)
       | Other_exception w \<Rightarrow> Propagated e'))"
proof (intro conjI impI)
  assume a: "2 \<le> num_vertices fg \<and>
    (for_each_vertex
       (GraphInferenceFunctor_vertex ev (make_MessagePasserFactory params) params fg)
       (vertices fg) ([], []) = Inl (Thrown e) \<or>
     (for_each_vertex
        (GraphInferenceFunctor_vertex ev (make_MessagePasserFactory params) params fg)
        (vertices fg) ([], []) = Inr (bigb, posteriorVars) \<and>
      belief_propagation ev (make_MessagePasserFactory params) bigb
        (PriorityScheduler (dampening_lambda params) (convergence_threshold params)
           (max_nr_iterations params)) posteriorVars = Inl e))"
  then obtain acquired events where
    t: "GraphInferenceFunctor_try ev params fg = (Inl (Thrown e), acquired, events)"
    using GraphInferenceFunctor_try_thrown [of ev params fg e bigb posteriorVars] by blast
  from a t show f: "fst (GraphInferenceFunctor ev params fg) =
      (case e of Runtime_error w \<Rightarrow> Returned | Other_exception w \<Rightarrow> Propagated e)"
    by (cases e) (simp_all add: GraphInferenceFunctor_def)
  from a f show "fst (applyFunctorOnCCs (GraphInferenceFunctor ev params) (fg # ccs)) =
      (case e of
         Runtime_error w \<Rightarrow> fst (applyFunctorOnCCs (GraphInferenceFunctor ev params) ccs)
       | Other_exception w \<Rightarrow> Propagated e)"
    by (cases e) (auto split: prod.splits)
next
  assume a: "2 \<le> num_vertices fg \<and>
    (for_each_vertex
       (ExtendedGraphInferenceFunctor_vertex ev (make_MessagePasserFactory params) fg)
       (vertices fg) ([], []) = Inl (Thrown e') \<or>
     (for_each_vertex
        (ExtendedGraphInferenceFunctor_vertex ev (make_MessagePasserFactory params) fg)
        (vertices fg) ([], []) = Inr (bigb', posteriorVars') \<and>
      belief_propagation ev (make_MessagePasserFactory params) bigb'
        (PriorityScheduler (dampening_lambda params) (convergence_threshold params)
           (max_nr_iterations params)) posteriorVars' = Inl e'))"
  then obtain events where
    t: "ExtendedGraphInferenceFunctor_try ev params fg = (Inl (Thrown e'), events)"
    using ExtendedGraphInferenceFunctor_try_thrown [of ev params fg e' bigb' posteriorVars']
    by blast
  from a t show f: "fst (ExtendedGraphInferenceFunctor ev params fg) =
      (case e' of Runtime_error w \<Rightarrow> Returned | Other_exception w \<Rightarrow> Propagated e')"
    by (cases e') (simp_all add: ExtendedGraphInferenceFunctor_def)
  from a f show "fst (applyFunctorOnCCs (ExtendedGraphInferenceFunctor ev params) (fg # ccs)) =
      (case e' of
         Runtime_error w \<Rightarrow> fst (applyFunctorOnCCs (ExtendedGraphInferenceFunctor ev params) ccs)
       | Other_exception w \<Rightarrow> Propagated e')"
    by (cases e') (auto split: prod.splits)
qed


theorem only_runtime_errors_are_caught_witness:
  "fst (GraphInferenceFunctor (failing_insertion (Other_exception ''std::bad_alloc''))
          example_params example_cc) = Propagated (Other_exception ''std::bad_alloc'') \<and>
   fst (ExtendedGraphInferenceFunctor (failing_insertion (Other_exception ''std::bad_alloc''))
          example_params example_cc) = Propagated (Other_exception ''std::bad_alloc'') \<and>
   fst (applyFunctorOnCCs
          (GraphInferenceFunctor (failing_inference (Other_exception ''std::logic_error''))
             example_params) [example_cc, example_cc]) = Propagated (Other_exception ''std::logic_error'') \<and>
   fst (applyFunctorOnCCs
          (ExtendedGraphInferenceFunctor (failing_inference (Other_exception ''std::logic_error''))
             example_params) [example_cc, example_cc]) = Propagated (Other_exception ''std::logic_error'') \<and>
   fst (GraphInferenceFunctor (failing_inference (Runtime_error ''underflow''))
          example_params example_cc) = Returned \<and>
   fst (ExtendedGraphInferenceFunctor (failing_inference (Runtime_error ''underflow''))
          example_params example_cc) = Returned"
  using only_runtime_errors_are_caught
    [where ev = "failing_insertion (Other_exception ''std::bad_alloc'')" and params = example_params
       and fg = example_cc and ccs = "[]"
       and e = "Other_exception ''std::bad_alloc''" and e' = "Other_exception ''std::bad_alloc''"]
    only_runtime_errors_are_caught
    [where ev = "failing_inference (Other_exception ''std::logic_error'')" and params = example_params
       and fg = example_cc and ccs = "[example_cc]"
       and e = "Other_exception ''std::logic_error''"
       and e' = "Other_exception ''std::logic_error''"
       and bigb = "[createProteinFactor 0, createProteinFactor 1,
                    createPeptideProbabilisticAdderFactor [0, 1] 2,
                    createSumEvidenceFactor 2 2 3, createPeptideEvidenceFactor 3 0.9]"
       and posteriorVars = "[[0], [1], [2], [3]]"
       and bigb' = "[createProteinFactor 0, createProteinFactor 1,
                     createPeptideProbabilisticAdderFactor [0, 1] 2,
                     createSumEvidenceFactor 2 2 3, createPeptideEvidenceFactor 3 0.9]"
       and posteriorVars' = "[[0], [1]]"]
    only_runtime_errors_are_caught
    [where ev = "failing_inference (Runtime_error ''underflow'')" and params = example_params
       and fg = example_cc and ccs = "[]"
       and e = "Runtime_error ''underflow''" and e' = "Runtime_error ''underflow''"
       and bigb = "[createProteinFactor 0, createProteinFactor 1,
                    createPeptideProbabilisticAdderFactor [0, 1] 2,
                    createSumEvidenceFactor 2 2 3, createPeptideEvidenceFactor 3 0.9]"
       and posteriorVars = "[[0], [1], [2], [3]]"
       and bigb' = "[createProteinFactor 0, createProteinFactor 1,
                     createPeptideProbabilisticAdderFactor [0, 1] 2,
                     createSumEvidenceFactor 2 2 3, createPeptideEvidenceFactor 3 0.9]"
       and posteriorVars' = "[[0], [1]]"]
  apply (simp add: loop_failing_insertion loop_example_any extended_loop_example_any
      failing_inference_def)
  apply (simp add: example_cc_def)
  done

subsection \<open>Grid search and the final pass\<close>

lemma only_proteins_written_refl: "only_proteins_written fg fg"
  by (simp add: only_proteins_written_def)

lemma only_proteins_written_trans:
  "only_proteins_written a b \<Longrightarrow> only_proteins_written b c \<Longrightarrow> only_proteins_written a c"
  by (auto simp: only_proteins_written_def)

lemma requested_heads:
  "map (\<lambda>pf. hd (ordered_variables pf))
     (map (\<lambda>vars. \<lparr>ordered_variables = vars, pmf = marginal vars\<rparr>) (map (\<lambda>v. [v]) vs)) = vs"
  by (induction vs) simp_all

lemma GraphInferenceFunctor_only_proteins:
  assumes "\<not> update_PSM_probabilities params" and "\<not> annotate_group_probabilities params"
  shows "only_proteins_written fg (fst (snd (GraphInferenceFunctor ev params fg)))"
proof (cases "fst (GraphInferenceFunctor_try ev params fg)")
  case (Inl a)
  then show ?thesis
    by (auto simp: GraphInferenceFunctor_def only_proteins_written_refl
        split: prod.splits abort.splits cpp_exception.splits)
next
  case (Inr fg')
  then obtain bigb posteriorVars marginal where
    loop: "for_each_vertex
             (GraphInferenceFunctor_vertex ev (make_MessagePasserFactory params) params fg)
             (vertices fg) ([], []) = Inr (bigb, posteriorVars)" and
    fg': "fg' = set_posteriors GraphInferenceFunctor_posterior
                  (map (\<lambda>vars. \<lparr>ordered_variables = vars, pmf = marginal vars\<rparr>) posteriorVars) fg"
    by (auto simp: GraphInferenceFunctor_try_def estimate_posteriors_def Let_def
        split: sum.splits prod.splits)
  let ?req = "filter (GraphInferenceFunctor_requests params fg) (vertices fg)"
  from GraphInferenceFunctor_loop_posteriorVars [OF loop]
  have pv: "posteriorVars = map (\<lambda>v. [v]) ?req" by simp
  have "only_proteins_written fg fg'"
    unfolding only_proteins_written_def
  proof (intro conjI allI impI)
    show "num_vertices fg' = num_vertices fg" "adjacent_vertices fg' = adjacent_vertices fg"
      by (simp_all add: fg' set_posteriors_frame)
  next
    fix v assume w: "which (vertex_property fg v) \<noteq> 0"
    with assms have "\<not> GraphInferenceFunctor_requests params fg v"
      by (auto simp: GraphInferenceFunctor_requests_def split: IDPointer.splits)
    then have "v \<notin> set ?req" by simp
    then have "v \<notin> set (map (\<lambda>pf. hd (ordered_variables pf))
        (map (\<lambda>vars. \<lparr>ordered_variables = vars, pmf = marginal vars\<rparr>) (map (\<lambda>v. [v]) ?req)))"
      by auto
    from set_posteriors_other [OF this]
    show "vertex_property fg' v = vertex_property fg v"
      by (simp add: fg' pv)
  qed
  with Inr show ?thesis
    by (auto simp: GraphInferenceFunctor_def only_proteins_written_refl split: prod.splits)
qed

lemma driver_only_proteins:
  assumes "\<not> update_PSM_probabilities params" and "\<not> annotate_group_probabilities params"
  shows "list_all2 only_proteins_written ccs
           (fst (snd (applyFunctorOnCCs (GraphInferenceFunctor ev params) ccs)))"
proof (induction ccs)
  case Nil
  show ?case by simp
next
  case (Cons cc ccs)
  have refl: "list_all2 only_proteins_written ccs ccs"
    by (simp add: list_all2_refl only_proteins_written_refl)
  from Cons GraphInferenceFunctor_only_proteins [OF assms, of cc ev] refl
  show ?case
    by (auto simp: only_proteins_written_refl split: prod.splits)
qed

lemma GraphInferenceFunctor_events:
  "GraphInferenceFunctor_constructed p \<notin> set (snd (snd (GraphInferenceFunctor ev params fg)))"
  by (auto simp: GraphInferenceFunctor_def GraphInferenceFunctor_try_def Let_def
      split: prod.splits sum.splits abort.splits cpp_exception.splits if_splits)

lemma driver_events:
  "GraphInferenceFunctor_constructed p \<notin>
     set (snd (snd (applyFunctorOnCCs (GraphInferenceFunctor ev params) ccs)))"
proof (induction ccs)
  case Nil
  show ?case by simp
next
  case (Cons cc ccs)
  then show ?case
    using GraphInferenceFunctor_events [of p ev params cc]
    by (auto split: prod.splits)
qed

lemma evaluator_step:
  assumes f: "\<not> update_PSM_probabilities p" "\<not> annotate_group_probabilities p"
    and e: "GridSearchEvaluator ev fdr a b g (p, ccs) = (out, val, (p1, ccs1), events)"
  shows "\<not> update_PSM_probabilities p1 \<and> \<not> annotate_group_probabilities p1 \<and>
         list_all2 only_proteins_written ccs ccs1 \<and>
         (\<forall>q. GraphInferenceFunctor_constructed q \<in> set events \<longrightarrow>
              \<not> update_PSM_probabilities q \<and> \<not> annotate_group_probabilities q)"
proof -
  let ?p1 = "p\<lparr>prot_prior := g, pep_emission := a, pep_spurious_emission := b\<rparr>"
  have fl: "\<not> update_PSM_probabilities ?p1" "\<not> annotate_group_probabilities ?p1"
    using f by simp_all
  from e have p1: "p1 = ?p1"
    and ccs1: "ccs1 = fst (snd (applyFunctorOnCCs (GraphInferenceFunctor ev ?p1) ccs))"
    and events: "events = [cout_Evaluating a b g, GraphInferenceFunctor_constructed ?p1] @
                   snd (snd (applyFunctorOnCCs (GraphInferenceFunctor ev ?p1) ccs))"
    by (auto simp: GridSearchEvaluator_def Let_def split: prod.splits)
  show ?thesis
    using fl driver_only_proteins [OF fl, of ccs ev] driver_events [of _ ev ?p1 ccs]
    by (auto simp: p1 ccs1 events)
qed

lemma list_all2_only_proteins_trans:
  "list_all2 only_proteins_written xs ys \<Longrightarrow> list_all2 only_proteins_written ys zs \<Longrightarrow>
   list_all2 only_proteins_written xs zs"
  by (rule list_all2_trans [of only_proteins_written only_proteins_written only_proteins_written])
     (auto intro: only_proteins_written_trans)

lemma search_invariant:
  assumes "\<not> update_PSM_probabilities p" "\<not> annotate_group_probabilities p"
    and "evaluate_combos (GridSearchEvaluator ev fdr) gs cs bv bp (p, ccs) =
           (out, bp', (p', ccs'), events)"
  shows "\<not> update_PSM_probabilities p' \<and> \<not> annotate_group_probabilities p' \<and>
         list_all2 only_proteins_written ccs ccs' \<and>
         (\<forall>q. GraphInferenceFunctor_constructed q \<in> set events \<longrightarrow>
              \<not> update_PSM_probabilities q \<and> \<not> annotate_group_probabilities q)"
  using assms
proof (induction cs arbitrary: bv bp p ccs out bp' p' ccs' events)
  case Nil
  then show ?case
    by (simp add: list_all2_refl only_proteins_written_refl)
next
  case (Cons c cs)
  obtain i j k where c: "c = (i, j, k)" by (cases c) auto
  obtain out1 val p1 ccs1 events1 where
    e: "GridSearchEvaluator ev fdr (grid_alpha gs ! i) (grid_beta gs ! j) (grid_gamma gs ! k)
          (p, ccs) = (out1, val, (p1, ccs1), events1)"
    by (metis prod.collapse)
  note s = evaluator_step [OF Cons.prems(1,2) e]
  show ?case
  proof (cases "out1 = Returned")
    case False
    with Cons.prems(3) c e s show ?thesis by simp
  next
    case True
    obtain out2 bp2 p2 ccs2 events2 where
      r: "evaluate_combos (GridSearchEvaluator ev fdr) gs cs
            (if val > bv then val else bv) (if val > bv then (i, j, k) else bp) (p1, ccs1) =
          (out2, bp2, (p2, ccs2), events2)"
      by (metis prod.collapse)
    from s have f1: "\<not> update_PSM_probabilities p1" "\<not> annotate_group_probabilities p1"
      by simp_all
    note ih = Cons.IH [OF f1 r]
    from Cons.prems(3) c e True r
    have "p' = p2" "ccs' = ccs2" "events = events1 @ events2"
      by simp_all
    with s ih show ?thesis
      by (auto intro: list_all2_only_proteins_trans)
  qed
qed

lemma grid_search_stage_invariant:
  assumes "grid_search_stage ev fdr params ccs = (out, bestParams, (params2, ccs1), events1)"
  shows "\<not> update_PSM_probabilities params2 \<and> \<not> annotate_group_probabilities params2 \<and>
         list_all2 only_proteins_written ccs ccs1 \<and>
         (\<forall>q. GraphInferenceFunctor_constructed q \<in> set events1 \<longrightarrow>
              \<not> update_PSM_probabilities q \<and> \<not> annotate_group_probabilities q)"
proof (cases "getNrCombos \<lparr>grid_alpha = alpha_search params, grid_beta = beta_search params,
                grid_gamma = gamma_search params\<rparr> > 1")
  case False
  with assms show ?thesis
    by (auto simp: grid_search_stage_def Let_def list_all2_refl only_proteins_written_refl)
next
  case True
  let ?gs = "\<lparr>grid_alpha = alpha_search params, grid_beta = beta_search params,
                grid_gamma = gamma_search params\<rparr>"
  let ?p = "params\<lparr>update_PSM_probabilities := False, annotate_group_probabilities := False\<rparr>"
  obtain out2 bp2 p2 ccs2 events2 where
    r: "evaluate_combos (GridSearchEvaluator ev fdr) ?gs (combos ?gs) (- 1) (0, 0, 0) (?p, ccs) =
          (out2, bp2, (p2, ccs2), events2)"
    by (metis prod.collapse)
  have "\<not> update_PSM_probabilities ?p" "\<not> annotate_group_probabilities ?p" by simp_all
  note inv = search_invariant [OF this r]
  from assms True r have "params2 = p2" "ccs1 = ccs2" "events1 = cout_Testing (getNrCombos ?gs) # events2"
    by (simp_all add: grid_search_stage_def Let_def GridSearch_evaluate_def)
  with inv show ?thesis by auto
qed

lemma example_search:
  "grid_search_stage example_evergreen example_score defaults [example_cc] =
     (Returned, (0, 0, 0), (search_params (9 / 10), [example_cc_searched]),
      cout_Testing 5 # search_events (1 / 10) @ search_events (3 / 10) @ search_events (1 / 2) @
      search_events (7 / 10) @ search_events (9 / 10))"
  by (simp add: orchestration_defs functor_defs example_defs upt_4 Let_def
      example_cc_searched_def search_params_def search_events_def)

lemma example_run_after_search:
  "fst (inferPosteriorProbabilities example_evergreen example_score defaults [example_cc] []) =
     Returned \<and>
   fst (snd (inferPosteriorProbabilities example_evergreen example_score defaults [example_cc] [])) =
     defaults\<lparr>prot_prior := 1 / 2, pep_emission := 1 / 10, pep_spurious_emission := 1 / 1000\<rparr> \<and>
   fst (snd (snd (inferPosteriorProbabilities example_evergreen example_score defaults
                    [example_cc] []))) = [example_cc_inferred]"
  by (simp add: orchestration_defs functor_defs example_defs upt_4 Let_def)

text \<open>
  Claim C7. Whatever the stage up to the end of the search yields: every
  \<^verbatim>\<open>GraphInferenceFunctor\<close> constructed during the search sees both flags switched off;
  the CCs after the search have the vertices they had, and every vertex that is not a
  protein (every PSM score, every group value) holds what it held before the search.
  If the search returns, the final pass is the inference functor applied to the CCs as
  the search left them, with parameters whose two flags are the caller's.
\<close>

theorem side_effects_disabled_during_search:
  "grid_search_stage ev fdr params ccs = (out, bestParams, (sparams, sccs), sevents) \<longrightarrow>
     (GraphInferenceFunctor_constructed p \<in> set sevents \<longrightarrow>
        \<not> update_PSM_probabilities p \<and> \<not> annotate_group_probabilities p) \<and>
     length sccs = length ccs \<and>
     (i < length ccs \<and> which (vertex_property (ccs ! i) v) \<noteq> 0 \<longrightarrow>
        vertex_property (sccs ! i) v = vertex_property (ccs ! i) v) \<and>
     (out = Returned \<longrightarrow>
        update_PSM_probabilities (fst (snd (inferPosteriorProbabilities ev fdr params ccs groups)))
          = update_PSM_probabilities params \<and>
        annotate_group_probabilities (fst (snd (inferPosteriorProbabilities ev fdr params ccs groups)))
          = annotate_group_probabilities params \<and>
        fst (inferPosteriorProbabilities ev fdr params ccs groups) =
          fst (applyFunctorOnCCs
                 (GraphInferenceFunctor ev
                    (fst (snd (inferPosteriorProbabilities ev fdr params ccs groups)))) sccs) \<and>
        fst (snd (snd (inferPosteriorProbabilities ev fdr params ccs groups))) =
          fst (snd (applyFunctorOnCCs
                      (GraphInferenceFunctor ev
                         (fst (snd (inferPosteriorProbabilities ev fdr params ccs groups)))) sccs)))"
proof (intro impI)
  assume st: "grid_search_stage ev fdr params ccs = (out, bestParams, (sparams, sccs), sevents)"
  note inv = grid_search_stage_invariant [OF st]
  from inv have rel: "list_all2 only_proteins_written ccs sccs" by simp
  have a: "GraphInferenceFunctor_constructed p \<in> set sevents \<longrightarrow>
        \<not> update_PSM_probabilities p \<and> \<not> annotate_group_probabilities p"
    using inv by blast
  have b: "length sccs = length ccs"
    using rel by (simp add: list_all2_lengthD)
  have c: "i < length ccs \<and> which (vertex_property (ccs ! i) v) \<noteq> 0 \<longrightarrow>
        vertex_property (sccs ! i) v = vertex_property (ccs ! i) v"
  proof
    assume h: "i < length ccs \<and> which (vertex_property (ccs ! i) v) \<noteq> 0"
    with rel have "only_proteins_written (ccs ! i) (sccs ! i)"
      by (simp add: list_all2_nthD)
    with h show "vertex_property (sccs ! i) v = vertex_property (ccs ! i) v"
      by (simp add: only_proteins_written_def)
  qed
  have d: "out = Returned \<longrightarrow>
        update_PSM_probabilities (fst (snd (inferPosteriorProbabilities ev fdr params ccs groups)))
          = update_PSM_probabilities params \<and>
        annotate_group_probabilities (fst (snd (inferPosteriorProbabilities ev fdr params ccs groups)))
          = annotate_group_probabilities params \<and>
        fst (inferPosteriorProbabilities ev fdr params ccs groups) =
          fst (applyFunctorOnCCs
                 (GraphInferenceFunctor ev
                    (fst (snd (inferPosteriorProbabilities ev fdr params ccs groups)))) sccs) \<and>
        fst (snd (snd (inferPosteriorProbabilities ev fdr params ccs groups))) =
          fst (snd (applyFunctorOnCCs
                      (GraphInferenceFunctor ev
                         (fst (snd (inferPosteriorProbabilities ev fdr params ccs groups)))) sccs))"
    using st by (auto simp: inferPosteriorProbabilities_def Let_def split: prod.splits)
  from a b c d show "(GraphInferenceFunctor_constructed p \<in> set sevents \<longrightarrow>
        \<not> update_PSM_probabilities p \<and> \<not> annotate_group_probabilities p) \<and>
     length sccs = length ccs \<and>
     (i < length ccs \<and> which (vertex_property (ccs ! i) v) \<noteq> 0 \<longrightarrow>
        vertex_property (sccs ! i) v = vertex_property (ccs ! i) v) \<and>
     (out = Returned \<longrightarrow>
        update_PSM_probabilities (fst (snd (inferPosteriorProbabilities ev fdr params ccs groups)))
          = update_PSM_probabilities params \<and>
        annotate_group_probabilities (fst (snd (inferPosteriorProbabilities ev fdr params ccs groups)))
          = annotate_group_probabilities params \<and>
        fst (inferPosteriorProbabilities ev fdr params ccs groups) =
          fst (applyFunctorOnCCs
                 (GraphInferenceFunctor ev
                    (fst (snd (inferPosteriorProbabilities ev fdr params ccs groups)))) sccs) \<and>
        fst (snd (snd (inferPosteriorProbabilities ev fdr params ccs groups))) =
          fst (snd (applyFunctorOnCCs
                      (GraphInferenceFunctor ev
                         (fst (snd (inferPosteriorProbabilities ev fdr params ccs groups)))) sccs)))"
    by blast
qed

theorem side_effects_disabled_during_search_witness:
  "GraphInferenceFunctor_constructed (search_params (3 / 10)) \<in>
     set (snd (snd (snd (grid_search_stage example_evergreen example_score defaults [example_cc]))))
   \<and> \<not> update_PSM_probabilities (search_params (3 / 10))
   \<and> \<not> annotate_group_probabilities (search_params (3 / 10))
   \<and> vertex_property example_cc_searched 3 = PSM \<lparr>pep_score = 9 / 10, pep_nr_evidences = 2\<rparr>
   \<and> vertex_property example_cc_searched 2 = ProteinGroup 0
   \<and> update_PSM_probabilities
        (fst (snd (inferPosteriorProbabilities example_evergreen example_score defaults
                     [example_cc] [])))
   \<and> annotate_group_probabilities
        (fst (snd (inferPosteriorProbabilities example_evergreen example_score defaults
                     [example_cc] [])))
   \<and> vertex_property
        (hd (fst (snd (snd (inferPosteriorProbabilities example_evergreen example_score defaults
                              [example_cc] []))))) 3 = PSM \<lparr>pep_score = 4 / 5, pep_nr_evidences = 2\<rparr>"
proof -
  note psm = side_effects_disabled_during_search
    [where ev = example_evergreen and fdr = example_score and params = defaults
       and ccs = "[example_cc]" and out = Returned and bestParams = "(0, 0, 0)"
       and sparams = "search_params (9 / 10)" and sccs = "[example_cc_searched]"
       and sevents = "cout_Testing 5 # search_events (1 / 10) @ search_events (3 / 10) @
                      search_events (1 / 2) @ search_events (7 / 10) @ search_events (9 / 10)"
       and p = "search_params (3 / 10)" and i = 0 and v = 3 and groups = "[]",
     THEN mp, OF example_search]
  note grp = side_effects_disabled_during_search
    [where ev = example_evergreen and fdr = example_score and params = defaults
       and ccs = "[example_cc]" and out = Returned and bestParams = "(0, 0, 0)"
       and sparams = "search_params (9 / 10)" and sccs = "[example_cc_searched]"
       and sevents = "cout_Testing 5 # search_events (1 / 10) @ search_events (3 / 10) @
                      search_events (1 / 2) @ search_events (7 / 10) @ search_events (9 / 10)"
       and p = "search_params (3 / 10)" and i = 0 and v = 2 and groups = "[]",
     THEN mp, OF example_search]
  have ev: "GraphInferenceFunctor_constructed (search_params (3 / 10)) \<in>
     set (snd (snd (snd (grid_search_stage example_evergreen example_score defaults
                           [example_cc]))))"
    unfolding example_search by (simp add: search_events_def)
  from psm have a: "vertex_property example_cc_searched 3 =
      PSM \<lparr>pep_score = 9 / 10, pep_nr_evidences = 2\<rparr>"
    by (simp add: example_cc_def)
  from grp have b: "vertex_property example_cc_searched 2 = ProteinGroup 0"
    by (simp add: example_cc_def)
  from psm have c: "\<not> update_PSM_probabilities (search_params (3 / 10)) \<and>
    \<not> annotate_group_probabilities (search_params (3 / 10))"
    by (simp add: search_events_def)
  have flags: "update_PSM_probabilities defaults" "annotate_group_probabilities defaults"
    by (simp_all add: defaults_def)
  from psm flags have d: "update_PSM_probabilities
        (fst (snd (inferPosteriorProbabilities example_evergreen example_score defaults
                     [example_cc] []))) \<and>
     annotate_group_probabilities
        (fst (snd (inferPosteriorProbabilities example_evergreen example_score defaults
                     [example_cc] [])))"
    by simp
  have f: "vertex_property
        (hd (fst (snd (snd (inferPosteriorProbabilities example_evergreen example_score defaults
                              [example_cc] []))))) 3 = PSM \<lparr>pep_score = 4 / 5, pep_nr_evidences = 2\<rparr>"
    by (simp add: example_run_after_search) (simp add: example_cc_inferred_def)
  from ev a b c d f show ?thesis
    by blast
qed

text \<open>
  Claim C6. When each of the three axes holds one candidate, the stage of the search
  evaluates nothing: it returns the CCs as they are, with the one line on
  \<^verbatim>\<open>std::cout\<close> that says so. The outcome and the CCs of the whole orchestration are then
  those of one application of the inference functor, with the three candidates as model
  parameters, to the CCs as given.
\<close>

theorem degenerate_grid_skips_search:
  "alpha_search params = [a] \<and> beta_search params = [b] \<and> gamma_search params = [g] \<longrightarrow>
     grid_search_stage ev fdr params ccs =
       (Returned, (0, 0, 0),
        (params\<lparr>update_PSM_probabilities := False, annotate_group_probabilities := False\<rparr>, ccs),
        [cout ''Only one combination specified: Skipping grid search.'']) \<and>
     fst (inferPosteriorProbabilities ev fdr params ccs groups) =
       fst (applyFunctorOnCCs
              (GraphInferenceFunctor ev
                 (params\<lparr>prot_prior := g, pep_emission := a, pep_spurious_emission := b\<rparr>)) ccs) \<and>
     fst (snd (snd (inferPosteriorProbabilities ev fdr params ccs groups))) =
       fst (snd (applyFunctorOnCCs
                   (GraphInferenceFunctor ev
                      (params\<lparr>prot_prior := g, pep_emission := a, pep_spurious_emission := b\<rparr>))
                   ccs))"
proof (intro impI)
  assume h: "alpha_search params = [a] \<and> beta_search params = [b] \<and> gamma_search params = [g]"
  have st: "grid_search_stage ev fdr params ccs =
       (Returned, (0, 0, 0),
        (params\<lparr>update_PSM_probabilities := False, annotate_group_probabilities := False\<rparr>, ccs),
        [cout ''Only one combination specified: Skipping grid search.''])"
    using h by (simp add: grid_search_stage_def getNrCombos_def Let_def)
  have p: "params\<lparr>update_PSM_probabilities := False, annotate_group_probabilities := False,
            prot_prior := g, pep_emission := a, pep_spurious_emission := b,
            update_PSM_probabilities := update_PSM_probabilities params,
            annotate_group_probabilities := annotate_group_probabilities params\<rparr> =
        params\<lparr>prot_prior := g, pep_emission := a, pep_spurious_emission := b\<rparr>"
    by simp
  show "grid_search_stage ev fdr params ccs =
       (Returned, (0, 0, 0),
        (params\<lparr>update_PSM_probabilities := False, annotate_group_probabilities := False\<rparr>, ccs),
        [cout ''Only one combination specified: Skipping grid search.'']) \<and>
     fst (inferPosteriorProbabilities ev fdr params ccs groups) =
       fst (applyFunctorOnCCs
              (GraphInferenceFunctor ev
                 (params\<lparr>prot_prior := g, pep_emission := a, pep_spurious_emission := b\<rparr>)) ccs) \<and>
     fst (snd (snd (inferPosteriorProbabilities ev fdr params ccs groups))) =
       fst (snd (applyFunctorOnCCs
                   (GraphInferenceFunctor ev
                      (params\<lparr>prot_prior := g, pep_emission := a, pep_spurious_emission := b\<rparr>))
                   ccs))"
    using h by (auto simp: st inferPosteriorProbabilities_def Let_def p split: prod.splits)
qed


theorem degenerate_grid_skips_search_witness:
  "alpha_search example_params = [4 / 5] \<and> beta_search example_params = [1 / 100] \<and>
   gamma_search example_params = [1 / 2] \<and>
   snd (snd (snd (grid_search_stage example_evergreen example_score example_params [example_cc])))
     = [cout ''Only one combination specified: Skipping grid search.''] \<and>
   fst (snd (snd (inferPosteriorProbabilities example_evergreen example_score example_params
                    [example_cc] []))) =
     fst (snd (applyFunctorOnCCs (GraphInferenceFunctor example_evergreen example_params)
                 [example_cc]))"
proof -
  have axes: "alpha_search example_params = [4 / 5] \<and> beta_search example_params = [1 / 100] \<and>
    gamma_search example_params = [1 / 2]"
    by (simp add: alpha_search_def beta_search_def gamma_search_def example_params_def
        defaults_def)
  have same: "example_params\<lparr>prot_prior := 1 / 2, pep_emission := 4 / 5,
                pep_spurious_emission := 1 / 100\<rparr> = example_params"
    by (simp add: example_params_def defaults_def)
  from axes same degenerate_grid_skips_search
    [where params = example_params and a = "4 / 5" and b = "1 / 100" and g = "1 / 2"
       and ev = example_evergreen and fdr = example_score and ccs = "[example_cc]"
       and groups = "[]"]
  show ?thesis by simp
qed

subsection \<open>Grid axes\<close>

text \<open>
  Claim C8. For each of the three axes: a negative configured value gives the default
  candidates (\<open>\<alpha>\<close>: 0.1, 0.3, 0.5, 0.7, 0.9; \<open>\<beta>\<close>: 0.001; \<open>\<gamma>\<close>: 0.5), and a configured
  value in \<open>[0,1]\<close> gives the one-element list holding exactly that value.
\<close>

theorem grid_axes_from_configuration:
  "(pep_emission params < 0 \<longrightarrow> alpha_search params = [0.1, 0.3, 0.5, 0.7, 0.9]) \<and>
   (pep_spurious_emission params < 0 \<longrightarrow> beta_search params = [0.001]) \<and>
   (prot_prior params < 0 \<longrightarrow> gamma_search params = [0.5]) \<and>
   (0 \<le> pep_emission params \<and> pep_emission params \<le> 1 \<longrightarrow>
      alpha_search params = [pep_emission params]) \<and>
   (0 \<le> pep_spurious_emission params \<and> pep_spurious_emission params \<le> 1 \<longrightarrow>
      beta_search params = [pep_spurious_emission params]) \<and>
   (0 \<le> prot_prior params \<and> prot_prior params \<le> 1 \<longrightarrow>
      gamma_search params = [prot_prior params])"
  by (simp add: alpha_search_def beta_search_def gamma_search_def)

theorem grid_axes_from_configuration_witness:
  "alpha_search (defaults\<lparr>pep_emission := - 1\<rparr>) = [0.1, 0.3, 0.5, 0.7, 0.9] \<and>
   beta_search (defaults\<lparr>pep_spurious_emission := - 1\<rparr>) = [0.001] \<and>
   gamma_search (defaults\<lparr>prot_prior := - 1\<rparr>) = [0.5] \<and>
   alpha_search (defaults\<lparr>pep_emission := 0.8\<rparr>) = [0.8] \<and>
   beta_search (defaults\<lparr>pep_spurious_emission := 0.01\<rparr>) = [0.01] \<and>
   gamma_search (defaults\<lparr>prot_prior := 1\<rparr>) = [1]"
  using grid_axes_from_configuration [of "defaults\<lparr>pep_emission := - 1\<rparr>"]
    grid_axes_from_configuration [of "defaults\<lparr>pep_spurious_emission := - 1\<rparr>"]
    grid_axes_from_configuration [of "defaults\<lparr>prot_prior := - 1\<rparr>"]
    grid_axes_from_configuration [of "defaults\<lparr>pep_emission := 0.8\<rparr>"]
    grid_axes_from_configuration [of "defaults\<lparr>pep_spurious_emission := 0.01\<rparr>"]
    grid_axes_from_configuration [of "defaults\<lparr>prot_prior := 1\<rparr>"]
  by (simp add: defaults_def)

subsection \<open>Indistinguishable groups\<close>

lemma push_accessions_eq:
  "push_accessions fg nbs accs = accs @ protein_accessions fg nbs"
  by (induction nbs arbitrary: accs)
     (auto simp: protein_accessions_def split: IDPointer.splits)

lemma annotate_vertices_eq:
  "annotate_vertices fg vs prots =
   prots @ map (group_record fg) (filter (\<lambda>ui. which (vertex_property fg ui) = 1) vs)"
  by (induction vs arbitrary: prots)
     (auto simp: group_record_def push_accessions_eq split: IDPointer.splits)

lemma AnnotateIndistGroupsFunctor_eq:
  "AnnotateIndistGroupsFunctor fg prots = prots @ group_records fg"
  by (simp add: AnnotateIndistGroupsFunctor_def group_records_def annotate_vertices_eq)

lemma applyFunctorOnCCsST_annotate:
  "applyFunctorOnCCsST AnnotateIndistGroupsFunctor ccs prots =
   prots @ concat (map group_records ccs)"
  by (induction ccs arbitrary: prots)
     (auto simp: AnnotateIndistGroupsFunctor_eq group_records_def)

lemma example_groups:
  "group_records example_cc_inferred = [\<lparr>probability = 1, accessions = [''A'', ''B'']\<rparr>]"
  by (simp add: group_records_def group_record_def protein_accessions_def vertices_def
      example_defs upt_4)

text \<open>
  Claim C9. The annotator, applied by the single-threaded driver, appends to the list of
  indistinguishable groups, CC after CC in the order of the CCs, and for each CC with at
  least two vertices exactly one record per protein-group vertex: its probability is the
  value stored in the vertex, its accessions are those of the adjacent protein vertices.
  A run of \<^verbatim>\<open>inferPosteriorProbabilities\<close> that returns has appended these records for
  the CCs as the final inference pass left them.
\<close>

theorem indistinguishable_groups_annotated:
  "applyFunctorOnCCsST AnnotateIndistGroupsFunctor ccs prots =
     prots @ concat (map group_records ccs) \<and>
   (inferPosteriorProbabilities ev fdr params ccs prots = (Returned, params', ccs', prots', events)
    \<longrightarrow> prots' = prots @ concat (map group_records ccs'))"
  by (auto simp: applyFunctorOnCCsST_annotate inferPosteriorProbabilities_def Let_def
      split: prod.splits if_splits)


theorem indistinguishable_groups_annotated_witness:
  "applyFunctorOnCCsST AnnotateIndistGroupsFunctor [example_cc_inferred] [] =
     [\<lparr>probability = 1, accessions = [''A'', ''B'']\<rparr>] \<and>
   fst (snd (snd (snd (inferPosteriorProbabilities example_evergreen example_score
                         example_params [example_cc] [])))) =
     [\<lparr>probability = 1, accessions = [''A'', ''B'']\<rparr>]"
  using indistinguishable_groups_annotated
    [where ccs = "[example_cc_inferred]" and prots = "[]"]
    indistinguishable_groups_annotated
    [where ccs = "[example_cc]" and prots = "[]" and ev = example_evergreen
       and fdr = example_score and params = example_params  and params' = example_params
       and ccs' = "[example_cc_inferred]"
       and prots' = "[\<lparr>probability = 1, accessions = [''A'', ''B'']\<rparr>]"]
  by (simp add: example_run example_groups)

end
